theory Spec2Isabelle
  imports Complex_Main "HOL-Library.AList" "HOL-Library.Log_Nat"
begin

section \<open>JavaScript numbers\<close>

text \<open>
  Every amount and balance is a JavaScript Number, an IEEE 754 double.  A finite
  double is modelled by the rational number it stands for, and the result of
  an addition or a subtraction is the exact result rounded to the nearest
  double, ties to the even mantissa.  Numbers of a request body and of a stored
  document are doubles already.  NaN, the infinities and a result that
  overflows are outside the model.
\<close>

text \<open>The binary exponent of a positive rational: the \<open>e\<close> with \<open>2^e \<le> a < 2^(e+1)\<close>.\<close>

definition ilog2 :: "rat \<Rightarrow> int" where
  "ilog2 a = (let k = bitlen (fst (quotient_of a)) - bitlen (snd (quotient_of a))
              in if power_int 2 k \<le> a then k else k - 1)"

text \<open>Rounding to the nearest integer, a tie to the even one.\<close>

definition roundEven :: "rat \<Rightarrow> int" where
  "roundEven t = (let n = \<lfloor>t\<rfloor>; r = t - of_int n
                  in if r < 1 / 2 then n else if 1 / 2 < r then n + 1
                     else if even n then n else n + 1)"

text \<open>The double nearest to a rational: 53 bits of mantissa, and the spacing of
  the subnormal numbers below \<open>2^-1022\<close>.\<close>

definition double :: "rat \<Rightarrow> rat" where
  "double x = (if x = 0 then 0
               else let u = power_int 2 (max (ilog2 \<bar>x\<bar> - 52) (- 1074))
                    in of_int (roundEven (x / u)) * u)"

text \<open>\<open>x + y\<close> and \<open>x - y\<close> of JavaScript.\<close>

definition jsAdd :: "rat \<Rightarrow> rat \<Rightarrow> rat" where
  "jsAdd x y = double (x + y)"

definition jsSub :: "rat \<Rightarrow> rat \<Rightarrow> rat" where
  "jsSub x y = double (x - y)"

text \<open>A whole number of magnitude at most \<open>2^53\<close>; on these the arithmetic of
  doubles is exact.\<close>

definition whole :: "rat \<Rightarrow> bool" where
  "whole x \<longleftrightarrow> of_int \<lfloor>x\<rfloor> = x \<and> \<bar>x\<bar> \<le> 2 ^ 53"

section \<open>Data model\<close>

text \<open>
  Documents are identified by their \<open>_id\<close>; an ObjectId is modelled as a natural
  number.  Statuses are strings, as in the source.  A date is a number.  A
  document read from the database satisfies its schema, so that saving it again
  can fail only on a field that the handler has set.
\<close>

type_synonym oid = nat

datatype userType = ADMIN | SELLER | BUYER | MODERATOR | SUPPORT

text \<open>The authenticated caller, \<open>req.user\<close>, as the \<open>auth\<close> middleware supplies it.\<close>

record user =
  user_id :: oid
  userType :: userType

text \<open>\<open>ShopSchema.wallet\<close> and the fields of a shop the controllers read or write.
  A shop document stored without a wallet has \<open>wallet = None\<close>; the schema
  declares the wallet as a nested path whose two balances default to 0, so such
  a shop is read with the wallet \<open>{0, 0}\<close>.\<close>

record wallet =
  currentBalance :: rat
  lockedBalance :: rat

record shop =
  owner :: oid
  wallet :: "wallet option"
  totalRevenue :: rat

text \<open>\<open>withdrawalRequestSchema\<close>.  The five fields of \<open>paymentDetails.details\<close>
  are optional strings; \<open>paymentDetails.type\<close> is required and restricted to an
  enumeration by the schema, which is checked when the document is saved.\<close>

record details =
  accountName :: "string option"
  accountNumber :: "string option"
  bankName :: "string option"
  phoneNumber :: "string option"
  provider :: "string option"

record paymentDetails =
  ptype :: "string option"
  pdetails :: "details option"

record withdrawalRequest =
  wr_shop :: oid
  wr_user :: oid
  amount :: rat
  paymentDetails :: paymentDetails
  status :: string
  adminNote :: "string option"
  processedBy :: "oid option"
  processedAt :: "nat option"

text \<open>The \<open>adminNote\<close> of a request body: absent, a value that the schema's String
  type casts to a string, or a value that it cannot cast (an object, an
  array), which makes \<open>withdrawal.save()\<close> reject.\<close>

datatype noteValue = NoNote | Note string | BadNote

text \<open>The fields of an order that the order and webhook controllers use.  The
  Order schema itself is not part of the sources.\<close>

record historyEntry =
  h_status :: string
  h_timestamp :: nat
  h_updatedBy :: oid

record orderPayment =
  transactionId :: "string option"
  pay_status :: "string option"
  reference :: "string option"
  completedAt :: "nat option"
  lastCallbackAt :: "nat option"
  callbackStatus :: "string option"

record order =
  order_user :: oid
  order_shop :: oid
  items :: "(oid \<times> int) list"
  subtotal :: rat
  total :: rat
  order_status :: string
  paymentStatus :: string
  order_payment :: orderPayment
  statusHistory :: "historyEntry list"

text \<open>The database: one association list per collection, keyed by \<open>_id\<close>, the
  stock of every product, and the next fresh \<open>_id\<close>.\<close>

record db =
  shops :: "(oid \<times> shop) list"
  withdrawals :: "(oid \<times> withdrawalRequest) list"
  orders :: "(oid \<times> order) list"
  products :: "(oid \<times> int) list"
  nextId :: oid

text \<open>Every error response of the controllers, with its HTTP status code.\<close>

datatype error =
    InvalidAmount
  | InvalidPaymentDetails
  | ShopNotFound
  | InsufficientFunds
  | ServerError
  | InvalidStatus
  | WithdrawalNotFound
  | AlreadyProcessed
  | AssociatedShopNotFound
  | InvalidStatusValue
  | OrderNotFound
  | NotAuthorized
  | InvalidTransition string string

fun statusCode :: "error \<Rightarrow> nat" where
  "statusCode InvalidAmount = 400"
| "statusCode InvalidPaymentDetails = 400"
| "statusCode ShopNotFound = 404"
| "statusCode InsufficientFunds = 400"
| "statusCode ServerError = 500"
| "statusCode InvalidStatus = 400"
| "statusCode WithdrawalNotFound = 404"
| "statusCode AlreadyProcessed = 400"
| "statusCode AssociatedShopNotFound = 404"
| "statusCode InvalidStatusValue = 400"
| "statusCode OrderNotFound = 404"
| "statusCode NotAuthorized = 403"
| "statusCode (InvalidTransition from to) = 400"

section \<open>Withdrawal controller\<close>

text \<open>\<open>Model.findById\<close> is \<open>map_of\<close> on the collection, \<open>doc.save()\<close> of a loaded
  document is \<open>AList.update\<close> under its \<open>_id\<close>, and saving a new document appends
  it under the fresh \<open>_id\<close>.  \<open>Shop.findOne({ owner: userId })\<close> returns the first
  shop of that owner.\<close>

definition findShopByOwner :: "(oid \<times> shop) list \<Rightarrow> oid \<Rightarrow> (oid \<times> shop) option" where
  "findShopByOwner ss uid = List.find (\<lambda>p. owner (snd p) = uid) ss"

text \<open>The wallet of a loaded shop: the stored one, or \<open>{0, 0}\<close> by the defaults of
  the schema and by
  \<open>if (!shop.wallet) shop.wallet = { currentBalance: 0, lockedBalance: 0 }\<close>.\<close>

definition zeroWallet :: wallet where
  "zeroWallet = \<lparr>currentBalance = 0, lockedBalance = 0\<rparr>"

definition ensureWallet :: "shop \<Rightarrow> wallet" where
  "ensureWallet s = (case wallet s of None \<Rightarrow> zeroWallet | Some w \<Rightarrow> w)"

text \<open>The validators of \<open>withdrawalRequestSchema\<close> that run in \<open>withdrawal.save()\<close>:
  \<open>amount\<close> has \<open>min: 1\<close>, \<open>status\<close> and \<open>paymentDetails.type\<close> are enumerations.
  A failed validation makes \<open>save\<close> throw.\<close>

definition validWithdrawal :: "withdrawalRequest \<Rightarrow> bool" where
  "validWithdrawal w \<longleftrightarrow>
     1 \<le> amount w \<and>
     status w \<in> set [''pending'', ''approved'', ''rejected''] \<and>
     (case ptype (paymentDetails w) of
        None \<Rightarrow> False
      | Some t \<Rightarrow> t \<in> set [''bank'', ''mobile_money''])"

text \<open>The body of \<open>POST /withdrawals\<close>: both fields may be absent; the amount,
  when it is present, is a number, and the details of a destination, when
  present, are an object of strings.\<close>

record withdrawalBody =
  b_amount :: "rat option"
  b_paymentDetails :: "paymentDetails option"

text \<open>The test \<open>!paymentDetails || !paymentDetails.type || !paymentDetails.details\<close>:
  an empty string is falsy, every object is truthy.\<close>

definition badPaymentDetails :: "paymentDetails option \<Rightarrow> bool" where
  "badPaymentDetails p =
     (case p of
        None \<Rightarrow> True
      | Some pd \<Rightarrow>
          (case ptype pd of None \<Rightarrow> True | Some t \<Rightarrow> t = []) \<or> pdetails pd = None)"

text \<open>\<open>exports.requestWithdrawal\<close>.  The result is the database after the call and
  the response: an error, or the \<open>_id\<close> of the new request, the request and the
  wallet of the 201 response.  The shop is saved before the request is created, so
  a request that fails schema validation leaves the wallet moved and answers 500.\<close>

definition requestWithdrawal ::
    "db \<Rightarrow> user \<Rightarrow> withdrawalBody \<Rightarrow> db \<times> (error + oid \<times> withdrawalRequest \<times> wallet)" where
  "requestWithdrawal d u body =
     (case b_amount body of
        None \<Rightarrow> (d, Inl InvalidAmount)
      | Some a \<Rightarrow>
          if a = 0 \<or> a \<le> 0 then (d, Inl InvalidAmount)
          else if badPaymentDetails (b_paymentDetails body) then (d, Inl InvalidPaymentDetails)
          else
            (case b_paymentDetails body of
               None \<Rightarrow> (d, Inl InvalidPaymentDetails)
             | Some pd \<Rightarrow>
                 (case findShopByOwner (shops d) (user_id u) of
                    None \<Rightarrow> (d, Inl ShopNotFound)
                  | Some (sid, s) \<Rightarrow>
                      let w = ensureWallet s in
                      if currentBalance w < a then (d, Inl InsufficientFunds)
                      else
                        let w' = w\<lparr>currentBalance := jsSub (currentBalance w) a,
                                    lockedBalance := jsAdd (lockedBalance w) a\<rparr>;
                            d1 = d\<lparr>shops := AList.update sid (s\<lparr>wallet := Some w'\<rparr>) (shops d)\<rparr>;
                            wr = \<lparr>wr_shop = sid, wr_user = user_id u, amount = a,
                                  paymentDetails = pd,
                                  status = ''pending'', adminNote = None,
                                  processedBy = None, processedAt = None\<rparr>
                        in if \<not> validWithdrawal wr then (d1, Inl ServerError)
                           else
                             (d1\<lparr>withdrawals := withdrawals d1 @ [(nextId d1, wr)],
                                 nextId := Suc (nextId d1)\<rparr>,
                              Inr (nextId d1, wr, w')))))"

text \<open>\<open>exports.updateWithdrawalStatus\<close>, called with \<open>req.user\<close>, \<open>req.params.id\<close>,
  the \<open>status\<close> and \<open>adminNote\<close> of the body and the current date.  The caller is
  used for \<open>processedBy\<close> only, and the locked balance is lowered without a test
  that it covers the amount.  The two documents are saved by
  \<open>Promise.all([shop.save(), withdrawal.save()])\<close>: both saves are started, so
  when the request cannot be saved the shop is saved all the same, the request
  stays as it was and the handler answers 500.\<close>

definition updateWithdrawalStatus ::
    "db \<Rightarrow> user \<Rightarrow> oid \<Rightarrow> string \<Rightarrow> noteValue \<Rightarrow> nat \<Rightarrow> db \<times> (error + withdrawalRequest)" where
  "updateWithdrawalStatus d u wid st note now =
     (if st \<notin> set [''approved'', ''rejected''] then (d, Inl InvalidStatus)
      else
        (case map_of (withdrawals d) wid of
           None \<Rightarrow> (d, Inl WithdrawalNotFound)
         | Some wr \<Rightarrow>
             if status wr \<noteq> ''pending'' then (d, Inl AlreadyProcessed)
             else
               (case map_of (shops d) (wr_shop wr) of
                  None \<Rightarrow> (d, Inl AssociatedShopNotFound)
                | Some s \<Rightarrow>
                    let w = ensureWallet s;
                        w' = (if st = ''approved''
                              then w\<lparr>lockedBalance := jsSub (lockedBalance w) (amount wr)\<rparr>
                              else w\<lparr>lockedBalance := jsSub (lockedBalance w) (amount wr),
                                     currentBalance := jsAdd (currentBalance w) (amount wr)\<rparr>);
                        d1 = d\<lparr>shops := AList.update (wr_shop wr) (s\<lparr>wallet := Some w'\<rparr>) (shops d)\<rparr>
                    in (case note of
                          BadNote \<Rightarrow> (d1, Inl ServerError)
                        | NoNote \<Rightarrow>
                            let wr' = wr\<lparr>status := st, processedBy := Some (user_id u),
                                          processedAt := Some now, adminNote := None\<rparr>
                            in (d1\<lparr>withdrawals := AList.update wid wr' (withdrawals d)\<rparr>, Inr wr')
                        | Note txt \<Rightarrow>
                            let wr' = wr\<lparr>status := st, processedBy := Some (user_id u),
                                          processedAt := Some now, adminNote := Some txt\<rparr>
                            in (d1\<lparr>withdrawals := AList.update wid wr' (withdrawals d)\<rparr>, Inr wr')))))"

section \<open>Order controller\<close>

text \<open>\<open>ORDER_STATUS_FLOW\<close> and \<open>isValidStatusTransition\<close>; a status that is no key of
  the table has no successor (\<open>|| []\<close>).\<close>

definition ORDER_STATUS_FLOW :: "(string \<times> string list) list" where
  "ORDER_STATUS_FLOW =
     [(''pending_payment'', [''pending'', ''cancelled'']),
      (''pending'', [''processing'', ''cancelled'']),
      (''processing'', [''shipped'', ''cancelled'']),
      (''shipped'', [''delivered'', ''cancelled'']),
      (''delivered'', []),
      (''cancelled'', [])]"

definition isValidStatusTransition :: "string \<Rightarrow> string \<Rightarrow> bool" where
  "isValidStatusTransition currentStatus newStatus =
     (let allowedTransitions =
            (case map_of ORDER_STATUS_FLOW currentStatus of None \<Rightarrow> [] | Some ts \<Rightarrow> ts)
      in newStatus \<in> set allowedTransitions)"

definition validStatuses :: "string list" where
  "validStatuses = [''pending'', ''processing'', ''shipped'', ''delivered'', ''cancelled'']"

text \<open>Restocking on cancellation: one \<open>$inc\<close> of the stock per order line.  A line
  whose product no longer exists is populated with \<open>null\<close>, so its callback
  rejects and the handler answers 500, after the other lines were restocked.\<close>

definition restockItem :: "oid \<times> int \<Rightarrow> (oid \<times> int) list \<Rightarrow> (oid \<times> int) list" where
  "restockItem it ps =
     (case map_of ps (fst it) of
        None \<Rightarrow> ps
      | Some st \<Rightarrow> AList.update (fst it) (st + snd it) ps)"

definition restock :: "(oid \<times> int) list \<Rightarrow> (oid \<times> int) list \<Rightarrow> (oid \<times> int) list" where
  "restock its ps = fold restockItem its ps"

definition missingProduct :: "(oid \<times> int) list \<Rightarrow> (oid \<times> int) list \<Rightarrow> bool" where
  "missingProduct its ps = list_ex (\<lambda>it. map_of ps (fst it) = None) its"

text \<open>\<open>const orderRevenue = order.amounts.subtotal || order.amounts.total\<close>: a
  subtotal of zero is falsy.\<close>

definition orderRevenue :: "order \<Rightarrow> rat" where
  "orderRevenue ord = (if subtotal ord \<noteq> 0 then subtotal ord else total ord)"

text \<open>The credit of a delivery: the wallet is created if absent,
  \<open>currentBalance\<close> and \<open>metrics.totalRevenue\<close> grow by the order's revenue.\<close>

definition creditShop :: "shop \<Rightarrow> rat \<Rightarrow> shop" where
  "creditShop s r =
     (let w = ensureWallet s
      in s\<lparr>wallet := Some (w\<lparr>currentBalance := jsAdd (currentBalance w) r\<rparr>),
           totalRevenue := jsAdd (totalRevenue s) r\<rparr>)"

text \<open>\<open>exports.updateOrderStatus\<close>, called with \<open>req.user\<close>, \<open>req.params.orderId\<close>,
  the \<open>status\<close> of the body and the current date.  The order is loaded with its
  shop populated; an order whose shop is gone makes \<open>order.shop.owner\<close> throw.
  The notifications sent after the writes go to a service outside the sources
  and are not modelled.\<close>

definition updateOrderStatus ::
    "db \<Rightarrow> user \<Rightarrow> oid \<Rightarrow> string \<Rightarrow> nat \<Rightarrow> db \<times> (error + order)" where
  "updateOrderStatus d u orderId st now =
     (if st \<notin> set validStatuses then (d, Inl InvalidStatusValue)
      else
        (case map_of (orders d) orderId of
           None \<Rightarrow> (d, Inl OrderNotFound)
         | Some ord \<Rightarrow>
             (case map_of (shops d) (order_shop ord) of
                None \<Rightarrow> (d, Inl ServerError)
              | Some s \<Rightarrow>
                  if owner s \<noteq> user_id u \<and> userType u \<noteq> ADMIN then (d, Inl NotAuthorized)
                  else if \<not> isValidStatusTransition (order_status ord) st
                  then (d, Inl (InvalidTransition (order_status ord) st))
                  else
                    let ord' = ord\<lparr>order_status := st,
                                   statusHistory := statusHistory ord @
                                     [\<lparr>h_status = order_status ord, h_timestamp = now,
                                       h_updatedBy = user_id u\<rparr>]\<rparr>;
                        d1 = (if st = ''cancelled''
                              then d\<lparr>products := restock (items ord) (products d)\<rparr>
                              else if st = ''delivered'' \<and> order_status ord \<noteq> ''delivered''
                              then d\<lparr>shops := AList.update (order_shop ord)
                                                 (creditShop s (orderRevenue ord)) (shops d)\<rparr>
                              else d)
                    in if st = ''cancelled'' \<and> missingProduct (items ord) (products d)
                       then (d1, Inl ServerError)
                       else (d1\<lparr>orders := AList.update orderId ord' (orders d1)\<rparr>, Inr ord'))))"

section \<open>Webhook controllers\<close>

text \<open>The sources hold two handlers named \<open>handleZenopayCallback\<close>.  The first
  one asks the processor's API for the payment's status and acts on
  \<open>COMPLETED\<close> only; the second one maps the status reported in the callback.
  A response is its HTTP status code and its message.\<close>

type_synonym cbResponse = "nat \<times> string"

definition findOrderByTransaction :: "(oid \<times> order) list \<Rightarrow> string \<Rightarrow> (oid \<times> order) option" where
  "findOrderByTransaction os tx =
     List.find (\<lambda>p. transactionId (order_payment (snd p)) = Some tx) os"

text \<open>A string option is truthy when it is present and not empty; \<open>a || b\<close>.\<close>

definition truthy :: "string option \<Rightarrow> bool" where
  "truthy x = (case x of None \<Rightarrow> False | Some s \<Rightarrow> s \<noteq> [])"

definition js_or :: "string option \<Rightarrow> string option \<Rightarrow> string option" where
  "js_or a b = (if truthy a then a else b)"

text \<open>What \<open>PaymentService.checkPaymentStatus\<close> did: it threw, or it returned a
  result whose \<open>message?.payment_status\<close> is the given value.\<close>

datatype verifyResult = Throws | Status "string option"

text \<open>The order that the first handler saves.\<close>

definition completedOrder :: "order \<Rightarrow> string option \<Rightarrow> nat \<Rightarrow> order" where
  "completedOrder ord ref now =
     ord\<lparr>paymentStatus := ''completed'',
         order_status := ''pending'',
         order_payment := (order_payment ord)
           \<lparr>pay_status := Some ''completed'', reference := ref, completedAt := Some now\<rparr>\<rparr>"

text \<open>The first handler (\<open>webhookController.js\<close>, lines 10 to 150), called with the
  configured \<open>ZENOPAY_API_KEY\<close>, the validators of the Order schema that run in
  \<open>order.save()\<close> (the schema is not among the sources), the \<open>x-api-key\<close> header,
  the \<open>order_id\<close>, \<open>payment_status\<close> and \<open>reference\<close> of the body, the outcome of
  the status check and the current date.  The handler reads \<open>payment_status\<close> from
  the body and never uses it.  Every exception is answered with 200.\<close>

definition handleZenopayCallback ::
    "db \<Rightarrow> string \<Rightarrow> (order \<Rightarrow> bool) \<Rightarrow> string option \<Rightarrow> string option \<Rightarrow> string option \<Rightarrow>
     string option \<Rightarrow> verifyResult \<Rightarrow> nat \<Rightarrow> db \<times> cbResponse" where
  "handleZenopayCallback d envKey okOrder apiKey order_id payment_status ref verify now =
     (if truthy apiKey \<and> apiKey \<noteq> Some envKey then (d, (401, ''Unauthorized''))
      else if \<not> truthy order_id then (d, (400, ''Missing order_id''))
      else
        (case findOrderByTransaction (orders d) (case order_id of None \<Rightarrow> [] | Some tx \<Rightarrow> tx) of
           None \<Rightarrow> (d, (200, ''Order not found''))
         | Some (oid, ord) \<Rightarrow>
             (case verify of
                Throws \<Rightarrow> (d, (200, ''error''))
              | Status actualStatus \<Rightarrow>
                  if actualStatus \<noteq> Some ''COMPLETED'' then (d, (200, ''Payment not completed''))
                  else if paymentStatus ord = ''completed'' then (d, (200, ''Already processed''))
                  else if \<not> okOrder (completedOrder ord ref now) then (d, (200, ''error''))
                  else (d\<lparr>orders := AList.update oid (completedOrder ord ref now) (orders d)\<rparr>,
                        (200, ''received'')))))"

text \<open>The case conversions of ASCII strings: \<open>toUpperCase\<close> and \<open>toLowerCase\<close>
  change the letters \<open>a\<close> to \<open>z\<close> and \<open>A\<close> to \<open>Z\<close> of such a string and nothing
  else.  On other strings they follow the Unicode tables of the runtime, so
  the second handler takes the two conversions as parameters.\<close>

definition upperChar :: "char \<Rightarrow> char" where
  "upperChar c = (let n = (of_char c :: nat) in if 97 \<le> n \<and> n \<le> 122 then char_of (n - 32) else c)"

definition lowerChar :: "char \<Rightarrow> char" where
  "lowerChar c = (let n = (of_char c :: nat) in if 65 \<le> n \<and> n \<le> 90 then char_of (n + 32) else c)"

definition asciiUpper :: "string \<Rightarrow> string" where
  "asciiUpper s = map upperChar s"

definition asciiLower :: "string \<Rightarrow> string" where
  "asciiLower s = map lowerChar s"

text \<open>The \<open>switch\<close> of the second handler on \<open>paymentStatusValue?.toUpperCase()\<close>:
  the new payment status and the new order status.\<close>

definition mapStatus ::
    "(string \<Rightarrow> string) \<Rightarrow> (string \<Rightarrow> string) \<Rightarrow> string option \<Rightarrow> string \<Rightarrow> string \<times> string" where
  "mapStatus toUpperCase toLowerCase v cur =
     (let up = map_option toUpperCase v in
      if up \<in> set [Some ''COMPLETED'', Some ''SUCCESS'', Some ''SUCCESSFUL'']
        then (''completed'', ''pending'')
      else if up \<in> set [Some ''FAILED'', Some ''FAILURE'']
        then (''failed'', ''cancelled'')
      else if up \<in> set [Some ''PENDING'', Some ''PROCESSING'']
        then (''pending'', ''pending_payment'')
      else ((case js_or (map_option toLowerCase v) (Some ''unknown'') of
               None \<Rightarrow> ''unknown'' | Some s \<Rightarrow> s), cur))"

text \<open>The order that the second handler saves; the reported value is kept as it
  came in \<open>paymentDetails.callbackData.status\<close>.\<close>

definition callbackOrder ::
    "(string \<Rightarrow> string) \<Rightarrow> (string \<Rightarrow> string) \<Rightarrow> order \<Rightarrow> string option \<Rightarrow> string option \<Rightarrow>
     nat \<Rightarrow> order" where
  "callbackOrder toUpperCase toLowerCase ord paymentStatusValue ref now =
     (let newPaymentStatus =
            fst (mapStatus toUpperCase toLowerCase paymentStatusValue (order_status ord));
          newOrderStatus =
            snd (mapStatus toUpperCase toLowerCase paymentStatusValue (order_status ord));
          pay = order_payment ord
      in ord\<lparr>paymentStatus := newPaymentStatus,
             order_status := newOrderStatus,
             order_payment := pay
               \<lparr>pay_status := Some newPaymentStatus,
                reference := js_or ref (reference pay),
                completedAt := (if newPaymentStatus = ''completed''
                                then Some now else completedAt pay),
                lastCallbackAt := Some now,
                callbackStatus := paymentStatusValue\<rparr>\<rparr>)"

text \<open>The second handler (lines 237 to 425), called with the two case
  conversions, the validators of the Order schema, the \<open>order_id\<close>, \<open>status\<close>,
  \<open>payment_status\<close> and \<open>reference\<close> of the body and the current date.\<close>

definition handleZenopayCallback2 ::
    "(string \<Rightarrow> string) \<Rightarrow> (string \<Rightarrow> string) \<Rightarrow> db \<Rightarrow> (order \<Rightarrow> bool) \<Rightarrow> string option \<Rightarrow>
     string option \<Rightarrow> string option \<Rightarrow> string option \<Rightarrow> nat \<Rightarrow> db \<times> cbResponse" where
  "handleZenopayCallback2 toUpperCase toLowerCase d okOrder order_id st payment_status ref now =
     (if \<not> truthy order_id then (d, (400, ''Missing order_id''))
      else
        (case findOrderByTransaction (orders d) (case order_id of None \<Rightarrow> [] | Some tx \<Rightarrow> tx) of
           None \<Rightarrow> (d, (200, ''Order not found''))
         | Some (oid, ord) \<Rightarrow>
             let ord' = callbackOrder toUpperCase toLowerCase ord (js_or payment_status st) ref now
             in if \<not> okOrder ord' then (d, (200, ''Callback received but processing failed''))
                else (d\<lparr>orders := AList.update oid ord' (orders d)\<rparr>,
                      (200, ''Callback processed successfully''))))"

section \<open>Sequences of calls\<close>

text \<open>A call of one of the three handlers that write a wallet, and the database
  it leaves behind.  An order-status call credits on delivery, a withdrawal call
  reserves, a decision burns (\<open>approved\<close>) or releases (\<open>rejected\<close>).\<close>

datatype call =
    OrderStatus user oid string nat
  | Withdraw user withdrawalBody
  | Decide user oid string noteValue nat

fun step :: "db \<Rightarrow> call \<Rightarrow> db" where
  "step d (OrderStatus u orderId st now) = fst (updateOrderStatus d u orderId st now)"
| "step d (Withdraw u body) = fst (requestWithdrawal d u body)"
| "step d (Decide u wid st note now) = fst (updateWithdrawalStatus d u wid st note now)"

text \<open>The databases after each call of a sequence, in order.\<close>

fun trace :: "db \<Rightarrow> call list \<Rightarrow> db list" where
  "trace d [] = []"
| "trace d (c # cs) = step d c # trace (step d c) cs"

text \<open>Both balances of a shop's wallet are at least zero.\<close>

definition nonNegative :: "oid \<Rightarrow> db \<Rightarrow> bool" where
  "nonNegative sid d =
     (case map_of (shops d) sid of
        None \<Rightarrow> False
      | Some s \<Rightarrow> 0 \<le> currentBalance (ensureWallet s) \<and> 0 \<le> lockedBalance (ensureWallet s))"

text \<open>The sum of the two balances, as a number and not as a double.\<close>

definition walletTotal :: "wallet \<Rightarrow> rat" where
  "walletTotal w = currentBalance w + lockedBalance w"

text \<open>The wallet of a shop as the handlers read it, and its total.\<close>

definition shopWallet :: "oid \<Rightarrow> db \<Rightarrow> wallet option" where
  "shopWallet sid d = map_option ensureWallet (map_of (shops d) sid)"

definition shopTotal :: "oid \<Rightarrow> db \<Rightarrow> rat option" where
  "shopTotal sid d = map_option walletTotal (shopWallet sid d)"

text \<open>A wallet of whole numbers: both balances and their sum are whole.\<close>

definition wholeWallet :: "wallet \<Rightarrow> bool" where
  "wholeWallet w \<longleftrightarrow>
     whole (currentBalance w) \<and> whole (lockedBalance w) \<and> whole (walletTotal w)"

text \<open>A call in whole numbers that saves both documents or none: the amount of
  a withdrawal request, if there is one, is whole, and the note of a decision
  is one that the schema can store.\<close>

fun wholeCall :: "call \<Rightarrow> bool" where
  "wholeCall (OrderStatus u orderId st now) = True"
| "wholeCall (Withdraw u body) = (case b_amount body of None \<Rightarrow> True | Some a \<Rightarrow> whole a)"
| "wholeCall (Decide u wid st note now) = (note \<noteq> BadNote)"

text \<open>What a withdrawal request holds of a shop's locked balance: its amount
  while it is pending.  What an order can still bring a shop: its revenue
  until it is delivered.\<close>

definition held :: "oid \<Rightarrow> withdrawalRequest \<Rightarrow> rat" where
  "held sid wr = (if wr_shop wr = sid \<and> status wr = ''pending'' then amount wr else 0)"

definition pendingTotal :: "oid \<Rightarrow> (oid \<times> withdrawalRequest) list \<Rightarrow> rat" where
  "pendingTotal sid ws = sum_list (map (\<lambda>p. held sid (snd p)) ws)"

definition due :: "oid \<Rightarrow> order \<Rightarrow> rat" where
  "due sid ord =
     (if order_shop ord = sid \<and> order_status ord \<noteq> ''delivered'' then orderRevenue ord else 0)"

definition dueTotal :: "oid \<Rightarrow> (oid \<times> order) list \<Rightarrow> rat" where
  "dueTotal sid os = sum_list (map (\<lambda>p. due sid (snd p)) os)"

text \<open>A whole number that is at least zero.\<close>

definition wholeAmount :: "rat \<Rightarrow> bool" where
  "wholeAmount x \<longleftrightarrow> whole x \<and> 0 \<le> x"

text \<open>The wallet of a shop covers an amount \<open>t\<close> with room for \<open>b\<close>: the shop
  exists, its balances are whole, the available one is at least zero, the
  locked one at least \<open>t\<close>, and the two balances and \<open>b\<close> add up to at most
  \<open>2^53\<close>.\<close>

definition covers :: "oid \<Rightarrow> (oid \<times> shop) list \<Rightarrow> rat \<Rightarrow> rat \<Rightarrow> bool" where
  "covers sid ss t b =
     (case map_of ss sid of
        None \<Rightarrow> False
      | Some s \<Rightarrow>
          whole (currentBalance (ensureWallet s)) \<and> whole (lockedBalance (ensureWallet s)) \<and>
          0 \<le> currentBalance (ensureWallet s) \<and> t \<le> lockedBalance (ensureWallet s) \<and>
          currentBalance (ensureWallet s) + lockedBalance (ensureWallet s) + b \<le> 2 ^ 53)"

text \<open>The ledger invariant for one shop: shop ids are unique, what the requests
  hold and what the orders can bring are whole amounts, and the wallet of the
  shop covers its pending requests with room for its orders.\<close>

definition ledgerInv :: "oid \<Rightarrow> db \<Rightarrow> bool" where
  "ledgerInv sid d \<longleftrightarrow>
     distinct (map fst (shops d)) \<and>
     list_all (\<lambda>p. wholeAmount (held sid (snd p))) (withdrawals d) \<and>
     list_all (\<lambda>p. wholeAmount (due sid (snd p))) (orders d) \<and>
     covers sid (shops d) (pendingTotal sid (withdrawals d)) (dueTotal sid (orders d))"

text \<open>A shop as it is created: its wallet is zeroed (or not stored yet) and no
  request against it is pending.  The revenue of each of its orders is a whole
  number that is at least zero, and these add up to at most \<open>2^53\<close>.\<close>

definition freshShop :: "oid \<Rightarrow> db \<Rightarrow> bool" where
  "freshShop sid d \<longleftrightarrow>
     distinct (map fst (shops d)) \<and>
     list_all (\<lambda>p. \<not> (wr_shop (snd p) = sid \<and> status (snd p) = ''pending'')) (withdrawals d) \<and>
     list_all (\<lambda>p. wholeAmount (due sid (snd p))) (orders d) \<and>
     dueTotal sid (orders d) \<le> 2 ^ 53 \<and>
     (case map_of (shops d) sid of
        None \<Rightarrow> False
      | Some s \<Rightarrow> ensureWallet s = zeroWallet)"

text \<open>The transition graph of an order's status as the specification tabulates
  it, to compare with \<open>ORDER_STATUS_FLOW\<close>.\<close>

definition transitionGraph :: "(string \<times> string) list" where
  "transitionGraph =
     [(''pending_payment'', ''pending''), (''pending_payment'', ''cancelled''),
      (''pending'', ''processing''), (''pending'', ''cancelled''),
      (''processing'', ''shipped''), (''processing'', ''cancelled''),
      (''shipped'', ''delivered''), (''shipped'', ''cancelled'')]"

section \<open>The scenario of the verification script\<close>

text \<open>\<open>scripts/verify_withdrawal_flow.js\<close>: a seller's shop whose wallet holds
  50000 after a delivery, a withdrawal of 10000 to a mobile-money account
  described by \<open>phoneNumber\<close> and \<open>provider\<close> only, and an administrator who
  approves it.\<close>

definition seller :: user where
  "seller = \<lparr>user_id = 2, userType = SELLER\<rparr>"

definition admin :: user where
  "admin = \<lparr>user_id = 1, userType = ADMIN\<rparr>"

definition scriptDetails :: details where
  "scriptDetails = \<lparr>accountName = None, accountNumber = None, bankName = None,
     phoneNumber = Some ''0712345678'', provider = Some ''Tigo''\<rparr>"

definition scriptPayment :: paymentDetails where
  "scriptPayment = \<lparr>ptype = Some ''mobile_money'', pdetails = Some scriptDetails\<rparr>"

definition scriptBody :: withdrawalBody where
  "scriptBody = \<lparr>b_amount = Some 10000, b_paymentDetails = Some scriptPayment\<rparr>"

definition scriptOrder :: order where
  "scriptOrder = \<lparr>order_user = 3, order_shop = 10, items = [(30, 2)], subtotal = 50000,
     total = 50000, order_status = ''shipped'', paymentStatus = ''completed'',
     order_payment = \<lparr>transactionId = Some ''tx20'', pay_status = Some ''completed'',
       reference = None, completedAt = Some 1, lastCallbackAt = None, callbackStatus = None\<rparr>,
     statusHistory = []\<rparr>"

definition scriptRequest :: withdrawalRequest where
  "scriptRequest = \<lparr>wr_shop = 10, wr_user = 2, amount = 10000, paymentDetails = scriptPayment,
     status = ''pending'', adminNote = None, processedBy = None, processedAt = None\<rparr>"

text \<open>The database before the delivery, after it, after the withdrawal request
  and after the approval.\<close>

definition dbCreated :: db where
  "dbCreated = \<lparr>shops = [(10, \<lparr>owner = 2, wallet = Some zeroWallet, totalRevenue = 0\<rparr>)],
     withdrawals = [], orders = [(20, scriptOrder)], products = [(30, 5)], nextId = 100\<rparr>"

definition deliveredOrder :: order where
  "deliveredOrder = scriptOrder\<lparr>order_status := ''delivered'',
     statusHistory := [\<lparr>h_status = ''shipped'', h_timestamp = 2, h_updatedBy = 2\<rparr>]\<rparr>"

definition dbDelivered :: db where
  "dbDelivered = \<lparr>shops = [(10, \<lparr>owner = 2,
       wallet = Some \<lparr>currentBalance = 50000, lockedBalance = 0\<rparr>, totalRevenue = 50000\<rparr>)],
     withdrawals = [], orders = [(20, deliveredOrder)],
     products = [(30, 5)], nextId = 100\<rparr>"

definition dbRequested :: db where
  "dbRequested = dbDelivered\<lparr>shops := [(10, \<lparr>owner = 2,
       wallet = Some \<lparr>currentBalance = 40000, lockedBalance = 10000\<rparr>, totalRevenue = 50000\<rparr>)],
     withdrawals := [(100, scriptRequest)], nextId := 101\<rparr>"

definition dbApproved :: db where
  "dbApproved = dbRequested\<lparr>shops := [(10, \<lparr>owner = 2,
       wallet = Some \<lparr>currentBalance = 40000, lockedBalance = 0\<rparr>, totalRevenue = 50000\<rparr>)],
     withdrawals := [(100, scriptRequest\<lparr>status := ''approved'', processedBy := Some 1,
       processedAt := Some 3, adminNote := Some ''Verified manually''\<rparr>)]\<rparr>"

text \<open>An order that waits for its payment, for the webhook handlers.\<close>

definition unpaidOrder :: order where
  "unpaidOrder = scriptOrder\<lparr>order_status := ''pending_payment'', paymentStatus := ''pending'',
     order_payment := \<lparr>transactionId = Some ''tx20'', pay_status = Some ''pending'',
       reference = None, completedAt = None, lastCallbackAt = None, callbackStatus = None\<rparr>\<rparr>"

definition dbUnpaid :: db where
  "dbUnpaid = dbCreated\<lparr>orders := [(20, unpaidOrder)]\<rparr>"

text \<open>The same shop stored without a wallet.\<close>

definition dbNoWallet :: db where
  "dbNoWallet = dbCreated\<lparr>shops := [(10, \<lparr>owner = 2, wallet = None, totalRevenue = 0\<rparr>)]\<rparr>"

text \<open>Validators of the Order schema that accept every document.\<close>

definition acceptAll :: "order \<Rightarrow> bool" where
  "acceptAll ord = True"

text \<open>Modelled from the spec: the validators of an Order schema whose payment
  status is one of \<open>pending\<close>, \<open>completed\<close>, \<open>failed\<close> and whose fulfillment
  status is one of the six states of the specification.\<close>

definition enumOrder :: "order \<Rightarrow> bool" where
  "enumOrder ord \<longleftrightarrow>
     paymentStatus ord \<in> set [''pending'', ''completed'', ''failed''] \<and>
     order_status ord \<in> set [''pending_payment'', ''pending'', ''processing'', ''shipped'',
                             ''delivered'', ''cancelled'']"

text \<open>The scenario with small amounts: the shipped order is worth 10, and the
  seller asks for 1 and for 1.01.  The literal \<open>1.01\<close> denotes the double
  \<open>4548635623644201 / 2^52\<close>.\<close>

definition smallOrder :: order where
  "smallOrder = scriptOrder\<lparr>subtotal := 10, total := 10\<rparr>"

definition dbSmall :: db where
  "dbSmall = dbCreated\<lparr>orders := [(20, smallOrder)]\<rparr>"

definition oneBody :: withdrawalBody where
  "oneBody = scriptBody\<lparr>b_amount := Some 1\<rparr>"

definition centBody :: withdrawalBody where
  "centBody = scriptBody\<lparr>b_amount := Some (4548635623644201 / 4503599627370496)\<rparr>"

text \<open>The shop of the small scenario after the delivery and the request for 1:
  9 available, 1 locked for the pending request 100.\<close>

definition dbNineOne :: db where
  "dbNineOne = \<lparr>shops = [(10, \<lparr>owner = 2,
       wallet = Some \<lparr>currentBalance = 9, lockedBalance = 1\<rparr>, totalRevenue = 10\<rparr>)],
     withdrawals = [(100, scriptRequest\<lparr>amount := 1\<rparr>)],
     orders = [(20, smallOrder\<lparr>order_status := ''delivered'',
       statusHistory := [\<lparr>h_status = ''shipped'', h_timestamp = 2, h_updatedBy = 2\<rparr>]\<rparr>)],
     products = [(30, 5)], nextId = 101\<rparr>"

text \<open>Two requests that the handler's own tests let pass and the schema refuses:
  a destination of a type outside the enumeration, and an amount below 1.\<close>

definition paypalBody :: withdrawalBody where
  "paypalBody = scriptBody\<lparr>b_paymentDetails := Some (scriptPayment\<lparr>ptype := Some ''paypal''\<rparr>)\<rparr>"

definition halfBody :: withdrawalBody where
  "halfBody = scriptBody\<lparr>b_amount := Some (1 / 2)\<rparr>"

section \<open>Auxiliary facts\<close>

lemmas scenario_defs = seller_def admin_def scriptDetails_def scriptPayment_def scriptBody_def
  scriptOrder_def deliveredOrder_def scriptRequest_def dbCreated_def dbDelivered_def dbRequested_def dbApproved_def
  unpaidOrder_def dbUnpaid_def dbNoWallet_def zeroWallet_def

lemma find_Some_mem: "List.find P xs = Some x \<Longrightarrow> x \<in> set xs \<and> P x"
  by (induction xs) (auto split: if_splits)

text \<open>The binary exponent brackets its argument, and rounding leaves a whole
  number of magnitude at most \<open>2^53\<close> as it is: on such numbers the sums and
  differences of JavaScript are the exact ones.\<close>

lemma roundEven_of_int [simp]: "roundEven (of_int k) = k"
  by (simp add: roundEven_def)

lemma ilog2_bounds:
  assumes "0 < a"
  shows "power_int 2 (ilog2 a) \<le> a \<and> a < power_int 2 (ilog2 a + 1)"
proof -
  obtain p q where pq: "quotient_of a = (p, q)" by (cases "quotient_of a")
  then have q: "0 < q" by (rule quotient_of_denom_pos)
  have a: "a = of_int p / of_int q"
    using pq by (simp add: quotient_of_div)
  with assms q have p: "0 < p"
    by (simp add: zero_less_divide_iff)
  define bp bq where "bp = bitlen p" and "bq = bitlen q"
  have bp: "2 ^ nat (bp - 1) \<le> p" "p < 2 ^ nat bp" and bq: "2 ^ nat (bq - 1) \<le> q" "q < 2 ^ nat bq"
    using bitlen_bounds [OF p] bitlen_bounds [OF q] by (simp_all add: bp_def bq_def)
  have pos: "1 \<le> bp" "1 \<le> bq"
    using p q bitlen_eq_zero_iff [of p] bitlen_eq_zero_iff [of q] bitlen_nonneg [of p] bitlen_nonneg [of q]
    by (auto simp: bp_def bq_def)
  have "(of_int (2 ^ nat (bp - 1)) :: rat) \<le> of_int p" "(of_int p :: rat) < of_int (2 ^ nat bp)"
    using bp by (simp_all only: of_int_le_iff of_int_less_iff)
  then have P: "(2::rat) powi (bp - 1) \<le> of_int p" "of_int p < (2::rat) powi bp"
    using pos by (simp_all add: power_int_nonneg_exp)
  have "(of_int (2 ^ nat (bq - 1)) :: rat) \<le> of_int q" "(of_int q :: rat) < of_int (2 ^ nat bq)"
    using bq by (simp_all only: of_int_le_iff of_int_less_iff)
  then have Q: "(2::rat) powi (bq - 1) \<le> of_int q" "of_int q < (2::rat) powi bq"
    using pos by (simp_all add: power_int_nonneg_exp)
  have qpos: "(0::rat) < of_int q" using q by simp
  have up: "a < 2 powi (bp - bq + 1)"
  proof -
    have "of_int p < (2::rat) powi bp" by (rule P)
    also have "(2::rat) powi bp = 2 powi (bp - bq + 1) * 2 powi (bq - 1)"
      by (simp add: power_int_add [symmetric])
    also have "\<dots> \<le> 2 powi (bp - bq + 1) * of_int q"
      using Q(1) by (intro mult_left_mono) simp_all
    finally show ?thesis using qpos by (simp add: a pos_divide_less_eq)
  qed
  have lo: "2 powi (bp - bq - 1) < a"
  proof -
    have "(2::rat) powi (bp - bq - 1) * of_int q < 2 powi (bp - bq - 1) * 2 powi bq"
      using Q(2) by (intro mult_strict_left_mono) simp_all
    also have "\<dots> = 2 powi (bp - 1)"
      by (simp add: power_int_add [symmetric])
    also have "\<dots> \<le> of_int p" by (rule P)
    finally show ?thesis using qpos by (simp add: a pos_less_divide_eq)
  qed
  have il: "ilog2 a = (if (2::rat) powi (bp - bq) \<le> a then bp - bq else bp - bq - 1)"
    by (simp add: ilog2_def pq bp_def bq_def Let_def)
  show ?thesis
    using up lo by (auto simp: il not_le intro: less_imp_le)
qed

lemma double_whole:
  assumes "whole x"
  shows "double x = x"
proof (cases "x = 0")
  case True
  then show ?thesis by (simp add: double_def)
next
  case False
  from assms obtain n :: int where n: "x = of_int n" and b: "\<bar>x\<bar> \<le> 2 ^ 53"
    unfolding whole_def by metis
  define e where "e = ilog2 \<bar>x\<bar>"
  have a: "0 < \<bar>x\<bar>" using False by simp
  from ilog2_bounds [OF a] have lo: "2 powi e \<le> \<bar>x\<bar>" and hi: "\<bar>x\<bar> < 2 powi (e + 1)"
    by (simp_all add: e_def)
  have "1 \<le> \<bar>n\<bar>" using False n by auto
  then have one: "1 \<le> \<bar>x\<bar>" unfolding n by (metis of_int_1_le_iff of_int_abs)
  have e0: "0 \<le> e"
  proof (rule ccontr)
    assume "\<not> 0 \<le> e"
    then have "e + 1 \<le> 0" by simp
    then have "(2::rat) powi (e + 1) \<le> 2 powi 0"
      by (intro power_int_increasing) simp_all
    with hi one show False by simp
  qed
  have e53: "e \<le> 53"
  proof -
    have "(2::rat) powi e \<le> 2 powi 53" using lo b by simp
    then show ?thesis
      by (rule power_int_le_imp_le_exp [rotated]) simp_all
  qed
  have u: "max (e - 52) (- 1074) = e - 52" using e0 by simp
  have "\<exists>k::int. x / 2 powi (e - 52) = of_int k"
  proof (cases "e \<le> 52")
    case True
    have "x / 2 powi (e - 52) = x * 2 powi (52 - e)"
      by (simp add: power_int_diff field_simps)
    also have "\<dots> = of_int (n * 2 ^ nat (52 - e))"
      using True by (simp add: n power_int_def)
    finally show ?thesis by blast
  next
    case False
    with e53 have e: "e = 53" by simp
    with lo b have "\<bar>x\<bar> = 2 ^ 53" by simp
    then have "x = 2 ^ 53 \<or> x = - (2 ^ 53)" by auto
    then show ?thesis
    proof
      assume "x = 2 ^ 53"
      then have "x / 2 powi (e - 52) = of_int (2 ^ 52)" by (simp add: e)
      then show ?thesis by blast
    next
      assume "x = - (2 ^ 53)"
      then have "x / 2 powi (e - 52) = of_int (- (2 ^ 52))" by (simp add: e)
      then show ?thesis by blast
    qed
  qed
  then obtain k :: int where k: "x / 2 powi (e - 52) = of_int k" by blast
  have "double x = of_int (roundEven (x / 2 powi (e - 52))) * 2 powi (e - 52)"
    using False by (simp add: double_def e_def [symmetric] u Let_def)
  also have "\<dots> = x / 2 powi (e - 52) * 2 powi (e - 52)"
    by (simp add: k)
  also have "\<dots> = x" by simp
  finally show ?thesis .
qed

lemma jsAdd_whole: "whole (x + y) \<Longrightarrow> jsAdd x y = x + y"
  by (simp add: jsAdd_def double_whole)

lemma jsSub_whole: "whole (x - y) \<Longrightarrow> jsSub x y = x - y"
  by (simp add: jsSub_def double_whole)

lemma whole_iff: "whole x \<longleftrightarrow> x \<in> \<int> \<and> \<bar>x\<bar> \<le> 2 ^ 53"
  by (auto simp: whole_def Ints_def)

lemma whole_add: "whole x \<Longrightarrow> whole y \<Longrightarrow> \<bar>x + y\<bar> \<le> 2 ^ 53 \<Longrightarrow> whole (x + y)"
  by (simp add: whole_iff)

lemma whole_diff: "whole x \<Longrightarrow> whole y \<Longrightarrow> \<bar>x - y\<bar> \<le> 2 ^ 53 \<Longrightarrow> whole (x - y)"
  by (simp add: whole_iff)

lemma whole_numeral [simp]: "whole (numeral k) \<longleftrightarrow> (numeral k :: rat) \<le> 2 ^ 53"
  by (simp add: whole_iff)

lemma whole_zero [simp]: "whole 0"
  by (simp add: whole_iff)

section \<open>Deciding a withdrawal request\<close>

text \<open>The outcome of a decision is the same for every role of the caller.\<close>

lemma decision_ignores_role:
  "updateWithdrawalStatus d (u\<lparr>userType := t\<rparr>) wid st remark now =
   updateWithdrawalStatus d u wid st remark now"
  by (simp add: updateWithdrawalStatus_def Let_def split: option.splits noteValue.splits)

text \<open>
  Claim C1 says that deciding a withdrawal request succeeds for an administrator
  only, and that any other caller gets an authorization error with the request
  and the wallet unchanged.  \<open>updateWithdrawalStatus\<close> never reads the caller's
  \<open>userType\<close>: in the script's scenario the seller, who is no administrator,
  approves the pending request 100 of the seller's own shop; the call succeeds,
  the 10000 locked for the request are burnt and the request is recorded as
  approved by the seller.
\<close>

theorem seller_approves_withdrawal:
  "userType seller \<noteq> ADMIN \<and>
   map_of (withdrawals dbRequested) 100 = Some scriptRequest \<and>
   updateWithdrawalStatus dbRequested seller 100 ''approved'' NoNote 3 =
     (dbRequested\<lparr>shops := [(10, \<lparr>owner = 2,
          wallet = Some \<lparr>currentBalance = 40000, lockedBalance = 0\<rparr>, totalRevenue = 50000\<rparr>)],
        withdrawals := [(100, scriptRequest\<lparr>status := ''approved'', processedBy := Some 2,
          processedAt := Some 3, adminNote := None\<rparr>)]\<rparr>,
      Inr (scriptRequest\<lparr>status := ''approved'', processedBy := Some 2,
          processedAt := Some 3, adminNote := None\<rparr>))"
  by code_simp

text \<open>
  Claim C3: a withdrawal request is decided at most once.  Whenever the request
  found under the id is not \<open>pending\<close>, an attempt to approve or to reject it
  answers \<open>Request is already processed\<close> and returns the database as it was, so
  the wallet and every field of the request keep their values.
\<close>

theorem decided_request_is_final:
  assumes "st \<in> set [''approved'', ''rejected'']"
      and "map_of (withdrawals d) wid = Some wr"
      and "status wr \<noteq> ''pending''"
    shows "updateWithdrawalStatus d u wid st note now = (d, Inl AlreadyProcessed)"
  using assms by (simp add: updateWithdrawalStatus_def)

theorem decided_request_is_final_witness:
  "''rejected'' \<in> set [''approved'', ''rejected''] \<and>
   map_of (withdrawals dbApproved) 100 =
     Some (scriptRequest\<lparr>status := ''approved'', processedBy := Some 1,
             processedAt := Some 3, adminNote := Some ''Verified manually''\<rparr>) \<and>
   updateWithdrawalStatus dbApproved admin 100 ''rejected'' NoNote 4 =
     (dbApproved, Inl AlreadyProcessed)"
proof -
  have h1: "''rejected'' \<in> set [''approved'', ''rejected'']" by simp
  have h2: "map_of (withdrawals dbApproved) 100 =
     Some (scriptRequest\<lparr>status := ''approved'', processedBy := Some 1,
             processedAt := Some 3, adminNote := Some ''Verified manually''\<rparr>)"
    by (simp add: dbApproved_def dbRequested_def dbDelivered_def)
  have h3: "status (scriptRequest\<lparr>status := ''approved'', processedBy := Some 1,
       processedAt := Some 3, adminNote := Some ''Verified manually''\<rparr>) \<noteq> ''pending''"
    by simp
  show ?thesis using decided_request_is_final [OF h1 h2 h3] h1 h2 by simp
qed

section \<open>Requesting a withdrawal\<close>

text \<open>
  Claim C4 says that a withdrawal request of a positive amount that the
  available balance covers moves the amount to the locked balance and creates
  exactly one pending request.  The handler saves the shop first and creates
  the request afterwards, and the schema of the request is checked only then.
  In the script's scenario, with 50000 available: a request of 10000 to a
  destination of type \<open>paypal\<close> passes the handler's tests, the shop is saved
  with 10000 moved to the locked balance, the request is refused by the
  enumeration of the schema, and the handler answers 500 with no request
  stored; a request of 0.5 likewise leaves 49999.5 available and 0.5 locked,
  is refused by the minimum of 1 for the amount, and no request is stored.
\<close>

theorem refused_request_moves_wallet:
  "b_amount paypalBody = Some 10000 \<and>
   \<not> badPaymentDetails (b_paymentDetails paypalBody) \<and>
   shopWallet 10 dbDelivered = Some \<lparr>currentBalance = 50000, lockedBalance = 0\<rparr> \<and>
   withdrawals dbDelivered = [] \<and>
   requestWithdrawal dbDelivered seller paypalBody =
     (dbDelivered\<lparr>shops := [(10, \<lparr>owner = 2,
          wallet = Some \<lparr>currentBalance = 40000, lockedBalance = 10000\<rparr>, totalRevenue = 50000\<rparr>)]\<rparr>,
      Inl ServerError) \<and>
   b_amount halfBody = Some (1 / 2) \<and>
   \<not> badPaymentDetails (b_paymentDetails halfBody) \<and>
   requestWithdrawal dbDelivered seller halfBody =
     (dbDelivered\<lparr>shops := [(10, \<lparr>owner = 2,
          wallet = Some \<lparr>currentBalance = 99999 / 2, lockedBalance = 1 / 2\<rparr>, totalRevenue = 50000\<rparr>)]\<rparr>,
      Inl ServerError) \<and>
   withdrawals (fst (requestWithdrawal dbDelivered seller paypalBody)) = [] \<and>
   withdrawals (fst (requestWithdrawal dbDelivered seller halfBody)) = [] \<and>
   statusCode ServerError = 500"
  by code_simp

text \<open>
  Claim C9 says that a destination which lacks a field of its variant is refused.
  The handler does not look at the fields: the destination of the verification
  script is a mobile-money account without \<open>accountName\<close>, and the request is
  accepted, the wallet moved and the request stored.
\<close>

theorem script_destination_accepted:
  "accountName scriptDetails = None \<and>
   ptype scriptPayment = Some ''mobile_money'' \<and> pdetails scriptPayment = Some scriptDetails \<and>
   requestWithdrawal dbDelivered seller scriptBody =
     (dbRequested, Inr (100, scriptRequest, \<lparr>currentBalance = 40000, lockedBalance = 10000\<rparr>)) \<and>
   withdrawals dbDelivered = [] \<and> withdrawals dbRequested = [(100, scriptRequest)] \<and>
   map_of (shops dbDelivered) 10 \<noteq> map_of (shops dbRequested) 10"
  by code_simp

text \<open>
  Claim C9 as amended: a withdrawal request of a positive amount whose
  \<open>paymentDetails\<close> is absent, or has no type or an empty one, or has no details
  object, is refused with \<open>Invalid payment details\<close> before any write, and the
  database is returned as it was.  This is all the handler tests of a
  destination: the fields of the details object play no part.
\<close>

theorem destination_checked_for_presence_only:
  assumes "b_amount body = Some a" "0 < a"
  shows "(badPaymentDetails (b_paymentDetails body) \<longrightarrow>
            requestWithdrawal d u body = (d, Inl InvalidPaymentDetails)) \<and>
         (b_paymentDetails body = None \<longrightarrow> badPaymentDetails (b_paymentDetails body)) \<and>
         (\<forall>pd. b_paymentDetails body = Some pd \<longrightarrow>
            (badPaymentDetails (b_paymentDetails body) \<longleftrightarrow>
               ptype pd = None \<or> ptype pd = Some [] \<or> pdetails pd = None))"
  using assms
  by (auto simp: requestWithdrawal_def badPaymentDetails_def split: option.splits)

theorem destination_checked_for_presence_only_witness:
  "b_amount (scriptBody\<lparr>b_paymentDetails := Some \<lparr>ptype = Some ''bank'', pdetails = None\<rparr>\<rparr>)
     = Some 10000 \<and> (0::rat) < 10000 \<and>
   badPaymentDetails (Some \<lparr>ptype = Some ''bank'', pdetails = None\<rparr>) \<and>
   requestWithdrawal dbDelivered seller
       (scriptBody\<lparr>b_paymentDetails := Some \<lparr>ptype = Some ''bank'', pdetails = None\<rparr>\<rparr>) =
     (dbDelivered, Inl InvalidPaymentDetails)"
proof -
  let ?b = "scriptBody\<lparr>b_paymentDetails := Some \<lparr>ptype = Some ''bank'', pdetails = None\<rparr>\<rparr>"
  have a1: "b_amount ?b = Some 10000" and a2: "(0::rat) < 10000"
    by (simp_all add: scriptBody_def)
  have bad: "badPaymentDetails (Some \<lparr>ptype = Some ''bank'', pdetails = None\<rparr>)"
    by (simp add: badPaymentDetails_def)
  show ?thesis
    using destination_checked_for_presence_only [OF a1 a2, of dbDelivered seller] a1 bad
    by simp
qed

text \<open>
  Claim C10: a shop stored without a wallet is treated as a shop whose two
  balances are zero.  A request of a positive amount by its owner (a request
  that carries a destination, so that it reaches the shop) fails with
  \<open>Insufficient funds\<close> and returns the database as it was: neither the shop nor
  the collection of requests is written.
\<close>

theorem absent_wallet_is_zeroed:
  assumes shop: "findShopByOwner (shops d) (user_id u) = Some (sid, s)"
      and none: "wallet s = None"
      and amt: "b_amount body = Some a" "0 < a"
      and dest: "\<not> badPaymentDetails (b_paymentDetails body)"
    shows "ensureWallet s = \<lparr>currentBalance = 0, lockedBalance = 0\<rparr> \<and>
           requestWithdrawal d u body = (d, Inl InsufficientFunds)"
  using assms
  by (auto simp: requestWithdrawal_def ensureWallet_def zeroWallet_def Let_def
           badPaymentDetails_def split: option.splits)

theorem absent_wallet_is_zeroed_witness:
  "findShopByOwner (shops dbNoWallet) (user_id seller) =
     Some (10, \<lparr>owner = 2, wallet = None, totalRevenue = 0\<rparr>) \<and>
   b_amount scriptBody = Some 10000 \<and> (0::rat) < 10000 \<and>
   \<not> badPaymentDetails (b_paymentDetails scriptBody) \<and>
   requestWithdrawal dbNoWallet seller scriptBody = (dbNoWallet, Inl InsufficientFunds)"
proof -
  have sh: "findShopByOwner (shops dbNoWallet) (user_id seller) =
     Some (10, \<lparr>owner = 2, wallet = None, totalRevenue = 0\<rparr>)"
    by (simp add: findShopByOwner_def dbNoWallet_def dbCreated_def seller_def)
  have none: "wallet \<lparr>owner = 2, wallet = None, totalRevenue = 0\<rparr> = None" by simp
  have a1: "b_amount scriptBody = Some 10000" and a2: "(0::rat) < 10000"
    by (simp_all add: scriptBody_def)
  have ok: "\<not> badPaymentDetails (b_paymentDetails scriptBody)"
    by (simp add: badPaymentDetails_def scriptBody_def scriptPayment_def)
  show ?thesis
    using absent_wallet_is_zeroed [OF sh none a1 a2 ok] sh a1 ok by simp
qed

section \<open>Payment callbacks\<close>

text \<open>
  Claim C7 says that the callback handler never answers the processor with an
  error, and that a callback whose transaction id matches no order is accepted
  with 200.  The handler refuses a callback whose \<open>x-api-key\<close> header differs from
  the configured key before it looks the order up: such a callback, for a
  transaction that matches no order, is answered with 401.
\<close>

theorem wrong_key_is_refused:
  "findOrderByTransaction (orders dbUnpaid) ''tx99'' = None \<and>
   handleZenopayCallback dbUnpaid ''secret'' acceptAll (Some ''wrong'') (Some ''tx99'')
       (Some ''COMPLETED'') None (Status (Some ''COMPLETED'')) 5 =
     (dbUnpaid, (401, ''Unauthorized''))"
  by (simp add: scenario_defs handleZenopayCallback_def findOrderByTransaction_def truthy_def)

text \<open>
  Claim C7 as amended, for every callback.  A callback whose \<open>x-api-key\<close> header
  is present and differs from the configured key is answered 401 and changes
  nothing.  A callback that passes this test (no header, or the configured
  key) and carries no \<open>order_id\<close> is answered 400 and changes nothing.  A
  callback that passes the test and carries an \<open>order_id\<close> is answered 200,
  whatever the status check returns or throws and whether or not the order
  can be saved; if the transaction id matches no order the answer is
  \<open>Order not found\<close> and nothing changes; if the order found already has the
  payment status \<open>completed\<close> nothing changes.
\<close>

theorem callback_accepted_and_idempotent:
  assumes R: "R = handleZenopayCallback d envKey okOrder apiKey order_id ps ref verify now"
  shows "(truthy apiKey \<and> apiKey \<noteq> Some envKey \<longrightarrow> R = (d, (401, ''Unauthorized''))) \<and>
         ((\<not> truthy apiKey \<or> apiKey = Some envKey) \<and> \<not> truthy order_id \<longrightarrow>
            R = (d, (400, ''Missing order_id''))) \<and>
         ((\<not> truthy apiKey \<or> apiKey = Some envKey) \<and> truthy order_id \<longrightarrow>
            fst (snd R) = 200 \<and>
            (\<forall>tx. order_id = Some tx \<and> findOrderByTransaction (orders d) tx = None \<longrightarrow>
               R = (d, (200, ''Order not found''))) \<and>
            (\<forall>tx oid ord. order_id = Some tx \<and>
                findOrderByTransaction (orders d) tx = Some (oid, ord) \<and>
                paymentStatus ord = ''completed'' \<longrightarrow> fst R = d))"
  unfolding R
  by (auto simp: handleZenopayCallback_def truthy_def Let_def
           split: option.splits verifyResult.splits)

theorem callback_accepted_and_idempotent_witness:
  "truthy (Some ''wrong'') \<and>
   handleZenopayCallback dbDelivered ''secret'' acceptAll (Some ''wrong'') (Some ''tx20'')
       (Some ''COMPLETED'') None (Status (Some ''COMPLETED'')) 5 =
     (dbDelivered, (401, ''Unauthorized'')) \<and>
   \<not> truthy None \<and>
   handleZenopayCallback dbDelivered ''secret'' acceptAll None None
       (Some ''COMPLETED'') None (Status (Some ''COMPLETED'')) 5 =
     (dbDelivered, (400, ''Missing order_id'')) \<and>
   truthy (Some ''tx99'') \<and> truthy (Some ''tx20'') \<and>
   findOrderByTransaction (orders dbDelivered) ''tx99'' = None \<and>
   handleZenopayCallback dbDelivered ''secret'' acceptAll None (Some ''tx99'')
       (Some ''COMPLETED'') None (Status (Some ''COMPLETED'')) 5 =
     (dbDelivered, (200, ''Order not found'')) \<and>
   findOrderByTransaction (orders dbDelivered) ''tx20'' = Some (20, deliveredOrder) \<and>
   paymentStatus deliveredOrder = ''completed'' \<and>
   fst (handleZenopayCallback dbDelivered ''secret'' acceptAll None (Some ''tx20'')
       (Some ''COMPLETED'') None (Status (Some ''COMPLETED'')) 5) = dbDelivered \<and>
   fst (snd (handleZenopayCallback dbDelivered ''secret'' acceptAll None (Some ''tx20'')
       (Some ''COMPLETED'') None (Status (Some ''COMPLETED'')) 5)) = 200"
proof -
  have k0: "truthy (Some ''wrong'') \<and> Some ''wrong'' \<noteq> Some ''secret''"
    by (simp add: truthy_def)
  have k: "\<not> truthy None \<or> None = Some ''secret''" by (simp add: truthy_def)
  have k': "\<not> truthy None" by (simp add: truthy_def)
  have t: "truthy (Some ''tx99'')" "truthy (Some ''tx20'')" by (simp_all add: truthy_def)
  have f1: "findOrderByTransaction (orders dbDelivered) ''tx99'' = None"
    by (simp add: scenario_defs findOrderByTransaction_def)
  have f2: "findOrderByTransaction (orders dbDelivered) ''tx20'' = Some (20, deliveredOrder)"
    by (simp add: scenario_defs findOrderByTransaction_def)
  have c: "paymentStatus deliveredOrder = ''completed''"
    by (simp add: scenario_defs)
  note W = callback_accepted_and_idempotent [OF refl, where d = dbDelivered and envKey = "''secret''"
      and okOrder = acceptAll and apiKey = "Some ''wrong''" and order_id = "Some ''tx20''"
      and ps = "Some ''COMPLETED''" and ref = None and verify = "Status (Some ''COMPLETED'')" and now = 5]
  note M = callback_accepted_and_idempotent [OF refl, where d = dbDelivered and envKey = "''secret''"
      and okOrder = acceptAll and apiKey = None and order_id = None
      and ps = "Some ''COMPLETED''" and ref = None and verify = "Status (Some ''COMPLETED'')" and now = 5]
  note A = callback_accepted_and_idempotent [OF refl, where d = dbDelivered and envKey = "''secret''"
      and okOrder = acceptAll and apiKey = None and order_id = "Some ''tx99''"
      and ps = "Some ''COMPLETED''" and ref = None and verify = "Status (Some ''COMPLETED'')" and now = 5]
  note B = callback_accepted_and_idempotent [OF refl, where d = dbDelivered and envKey = "''secret''"
      and okOrder = acceptAll and apiKey = None and order_id = "Some ''tx20''"
      and ps = "Some ''COMPLETED''" and ref = None and verify = "Status (Some ''COMPLETED'')" and now = 5]
  have w: "handleZenopayCallback dbDelivered ''secret'' acceptAll (Some ''wrong'') (Some ''tx20'')
       (Some ''COMPLETED'') None (Status (Some ''COMPLETED'')) 5 =
     (dbDelivered, (401, ''Unauthorized''))"
    using W [THEN conjunct1, THEN mp, OF k0] .
  have m: "handleZenopayCallback dbDelivered ''secret'' acceptAll None None
       (Some ''COMPLETED'') None (Status (Some ''COMPLETED'')) 5 =
     (dbDelivered, (400, ''Missing order_id''))"
    using M [THEN conjunct2, THEN conjunct1, THEN mp, OF conjI [OF k k']] .
  note A3 = A [THEN conjunct2, THEN conjunct2, THEN mp, OF conjI [OF k t(1)]]
  note B3 = B [THEN conjunct2, THEN conjunct2, THEN mp, OF conjI [OF k t(2)]]
  have a: "handleZenopayCallback dbDelivered ''secret'' acceptAll None (Some ''tx99'')
       (Some ''COMPLETED'') None (Status (Some ''COMPLETED'')) 5 =
     (dbDelivered, (200, ''Order not found''))"
    using A3 [THEN conjunct2, THEN conjunct1, THEN spec, THEN mp, OF conjI [OF refl f1]] .
  have b1: "fst (handleZenopayCallback dbDelivered ''secret'' acceptAll None (Some ''tx20'')
       (Some ''COMPLETED'') None (Status (Some ''COMPLETED'')) 5) = dbDelivered"
    using B3 [THEN conjunct2, THEN conjunct2, THEN spec, THEN spec, THEN spec, THEN mp,
              OF conjI [OF refl conjI [OF f2 c]]] .
  have b2: "fst (snd (handleZenopayCallback dbDelivered ''secret'' acceptAll None (Some ''tx20'')
       (Some ''COMPLETED'') None (Status (Some ''COMPLETED'')) 5)) = 200"
    using B3 [THEN conjunct1] .
  show ?thesis
    by (intro conjI k0 [THEN conjunct1] w k' m t f1 a f2 c b1 b2)
qed

text \<open>What the two handlers answer and store for a callback on an order they
  found.\<close>

lemma callback2_result:
  assumes "order_id = Some tx" "tx \<noteq> []"
      and "findOrderByTransaction (orders d) tx = Some (oid, ord)"
    shows "handleZenopayCallback2 toUpperCase toLowerCase d okOrder order_id st payment_status ref now =
           (if okOrder (callbackOrder toUpperCase toLowerCase ord (js_or payment_status st) ref now)
            then (d\<lparr>orders := AList.update oid
                      (callbackOrder toUpperCase toLowerCase ord (js_or payment_status st) ref now)
                      (orders d)\<rparr>,
                  (200, ''Callback processed successfully''))
            else (d, (200, ''Callback received but processing failed'')))"
  using assms
  by (simp add: handleZenopayCallback2_def truthy_def Let_def)

lemma callback1_result:
  assumes "\<not> truthy apiKey \<or> apiKey = Some envKey" "order_id = Some tx" "tx \<noteq> []"
      and "findOrderByTransaction (orders d) tx = Some (oid, ord)"
      and "paymentStatus ord \<noteq> ''completed''"
    shows "handleZenopayCallback d envKey okOrder apiKey order_id ps ref
               (Status (Some ''COMPLETED'')) now =
           (if okOrder (completedOrder ord ref now)
            then (d\<lparr>orders := AList.update oid (completedOrder ord ref now) (orders d)\<rparr>,
                  (200, ''received''))
            else (d, (200, ''error'')))"
  using assms
  by (auto simp add: handleZenopayCallback_def truthy_def Let_def)

text \<open>
  Claim C8 says that, for every callback on an existing order, a \<open>failed\<close> status
  cancels the order and an unknown status is stored.  The handler of
  \<open>webhookController.js\<close> that verifies the payment acts on \<open>COMPLETED\<close> only: for a
  payment that the callback and the processor's API both report as \<open>FAILED\<close>, it
  answers \<open>Payment not completed\<close> and the order keeps its fulfillment status
  \<open>pending_payment\<close> and its payment status \<open>pending\<close>.
\<close>

theorem failed_payment_leaves_order:
  "map_of (orders dbUnpaid) 20 = Some unpaidOrder \<and>
   transactionId (order_payment unpaidOrder) = Some ''tx20'' \<and>
   order_status unpaidOrder = ''pending_payment'' \<and> paymentStatus unpaidOrder = ''pending'' \<and>
   handleZenopayCallback dbUnpaid ''secret'' acceptAll None (Some ''tx20'')
       (Some ''FAILED'') None (Status (Some ''FAILED'')) 5 =
     (dbUnpaid, (200, ''Payment not completed''))"
  by (simp add: scenario_defs handleZenopayCallback_def findOrderByTransaction_def truthy_def)

text \<open>
  Claim C8 as amended, for a callback on an existing order, with the case
  conversions of the runtime, whatever they do to a string.  The handler that
  maps the reported status (\<open>payment_status || status\<close>, compared in upper case)
  prepares an order with: for \<open>COMPLETED\<close>, \<open>SUCCESS\<close> or \<open>SUCCESSFUL\<close> the
  fulfillment status \<open>pending\<close> and the payment status \<open>completed\<close>; for \<open>FAILED\<close>
  or \<open>FAILURE\<close> the fulfillment status \<open>cancelled\<close> and the payment status
  \<open>failed\<close>; for \<open>PENDING\<close> or \<open>PROCESSING\<close> the fulfillment status
  \<open>pending_payment\<close> and the payment status \<open>pending\<close>; for any other value the
  fulfillment status it found, the value as it came in \<open>callbackData.status\<close>, and
  as payment status the value in lower case (\<open>unknown\<close> when no value was sent
  or its lower case is empty).  If the Order schema accepts this order it is
  stored under the \<open>_id\<close> of the order found; if not, nothing is stored and the
  answer is still 200.  The handler that verifies the payment prepares the
  fulfillment status \<open>pending\<close> and the payment status \<open>completed\<close> when the
  processor's API reports \<open>COMPLETED\<close> for an order not completed yet, stores
  that order if the schema accepts it and nothing if not, and changes nothing
  for any other status the API reports.
\<close>

theorem callback_status_mapping:
  assumes tx: "order_id = Some tx" "tx \<noteq> []"
      and found: "findOrderByTransaction (orders d) tx = Some (oid, ord)"
      and key: "\<not> truthy apiKey \<or> apiKey = Some envKey"
      and v: "v = js_or payment_status st"
      and o2: "ord2 = callbackOrder toUpperCase toLowerCase ord v ref now"
      and R2: "R2 = handleZenopayCallback2 toUpperCase toLowerCase d okOrder order_id st
                      payment_status ref now"
      and o1: "ord1 = completedOrder ord ref now"
      and R1: "R1 = handleZenopayCallback d envKey okOrder apiKey order_id ps ref
                      (Status (Some ''COMPLETED'')) now"
    shows "(map_option toUpperCase v \<in> set [Some ''COMPLETED'', Some ''SUCCESS'', Some ''SUCCESSFUL''] \<longrightarrow>
              order_status ord2 = ''pending'' \<and> paymentStatus ord2 = ''completed'') \<and>
           (map_option toUpperCase v \<in> set [Some ''FAILED'', Some ''FAILURE''] \<longrightarrow>
              order_status ord2 = ''cancelled'' \<and> paymentStatus ord2 = ''failed'') \<and>
           (map_option toUpperCase v \<in> set [Some ''PENDING'', Some ''PROCESSING''] \<longrightarrow>
              order_status ord2 = ''pending_payment'' \<and> paymentStatus ord2 = ''pending'') \<and>
           (map_option toUpperCase v \<notin> set [Some ''COMPLETED'', Some ''SUCCESS'', Some ''SUCCESSFUL'',
               Some ''FAILED'', Some ''FAILURE'', Some ''PENDING'', Some ''PROCESSING''] \<longrightarrow>
              order_status ord2 = order_status ord \<and>
              callbackStatus (order_payment ord2) = v \<and>
              paymentStatus ord2 =
                (if truthy (map_option toLowerCase v)
                 then toLowerCase (case v of None \<Rightarrow> [] | Some x \<Rightarrow> x) else ''unknown'')) \<and>
           (okOrder ord2 \<longrightarrow>
              R2 = (d\<lparr>orders := AList.update oid ord2 (orders d)\<rparr>,
                    (200, ''Callback processed successfully'')) \<and>
              map_of (orders (fst R2)) oid = Some ord2) \<and>
           (\<not> okOrder ord2 \<longrightarrow> R2 = (d, (200, ''Callback received but processing failed''))) \<and>
           order_status ord1 = ''pending'' \<and> paymentStatus ord1 = ''completed'' \<and>
           (paymentStatus ord \<noteq> ''completed'' \<and> okOrder ord1 \<longrightarrow>
              R1 = (d\<lparr>orders := AList.update oid ord1 (orders d)\<rparr>, (200, ''received'')) \<and>
              map_of (orders (fst R1)) oid = Some ord1) \<and>
           (paymentStatus ord \<noteq> ''completed'' \<and> \<not> okOrder ord1 \<longrightarrow> R1 = (d, (200, ''error''))) \<and>
           (actual \<noteq> Some ''COMPLETED'' \<longrightarrow>
              handleZenopayCallback d envKey okOrder apiKey order_id ps ref (Status actual) now =
                (d, (200, ''Payment not completed'')))"
proof -
  note S2 = callback2_result [OF tx found, where toUpperCase = toUpperCase
      and toLowerCase = toLowerCase and okOrder = okOrder and st = st
      and payment_status = payment_status and ref = ref and now = now,
      folded v, folded o2, folded R2]
  have low: "(case js_or (map_option toLowerCase v) (Some ''unknown'') of
               None \<Rightarrow> ''unknown'' | Some s \<Rightarrow> s) =
             (if truthy (map_option toLowerCase v)
              then toLowerCase (case v of None \<Rightarrow> [] | Some x \<Rightarrow> x) else ''unknown'')"
    by (cases v) (auto simp: js_or_def truthy_def)
  have c1: "map_option toUpperCase v \<in> set [Some ''COMPLETED'', Some ''SUCCESS'', Some ''SUCCESSFUL''] \<Longrightarrow>
              mapStatus toUpperCase toLowerCase v (order_status ord) = (''completed'', ''pending'')"
    by (simp add: mapStatus_def)
  have c2: "map_option toUpperCase v \<in> set [Some ''FAILED'', Some ''FAILURE''] \<Longrightarrow>
              mapStatus toUpperCase toLowerCase v (order_status ord) = (''failed'', ''cancelled'')"
    by (auto simp add: mapStatus_def)
  have c3: "map_option toUpperCase v \<in> set [Some ''PENDING'', Some ''PROCESSING''] \<Longrightarrow>
              mapStatus toUpperCase toLowerCase v (order_status ord) = (''pending'', ''pending_payment'')"
    by (auto simp add: mapStatus_def)
  have c4: "map_option toUpperCase v \<notin> set [Some ''COMPLETED'', Some ''SUCCESS'', Some ''SUCCESSFUL'',
               Some ''FAILED'', Some ''FAILURE'', Some ''PENDING'', Some ''PROCESSING''] \<Longrightarrow>
              mapStatus toUpperCase toLowerCase v (order_status ord) =
                (if truthy (map_option toLowerCase v)
                 then toLowerCase (case v of None \<Rightarrow> [] | Some x \<Rightarrow> x) else ''unknown'',
                 order_status ord)"
    by (auto simp add: mapStatus_def Let_def low)
  have f: "order_status ord2 = snd (mapStatus toUpperCase toLowerCase v (order_status ord))"
    "paymentStatus ord2 = fst (mapStatus toUpperCase toLowerCase v (order_status ord))"
    "callbackStatus (order_payment ord2) = v"
    unfolding o2 by (simp_all add: callbackOrder_def Let_def)
  have g: "order_status ord1 = ''pending''" "paymentStatus ord1 = ''completed''"
    unfolding o1 by (simp_all add: completedOrder_def)
  have h1: "paymentStatus ord \<noteq> ''completed'' \<Longrightarrow>
              R1 = (if okOrder ord1
                    then (d\<lparr>orders := AList.update oid ord1 (orders d)\<rparr>, (200, ''received''))
                    else (d, (200, ''error'')))"
    unfolding R1 o1 by (rule callback1_result [OF key tx found])
  have h2: "actual \<noteq> Some ''COMPLETED'' \<Longrightarrow>
              handleZenopayCallback d envKey okOrder apiKey order_id ps ref (Status actual) now =
                (d, (200, ''Payment not completed''))"
    using key tx found by (auto simp: handleZenopayCallback_def truthy_def)
  show ?thesis
    using S2 c1 c2 c3 c4 h1 h2 g
    by (intro conjI impI) (simp_all add: f update_conv')
qed

theorem callback_status_mapping_witness:
  "findOrderByTransaction (orders dbUnpaid) ''tx20'' = Some (20, unpaidOrder) \<and>
   order_status unpaidOrder = ''pending_payment'' \<and> paymentStatus unpaidOrder \<noteq> ''completed'' \<and>
   map_option order_status (map_of (orders (fst (handleZenopayCallback2 asciiUpper asciiLower
       dbUnpaid enumOrder (Some ''tx20'') None (Some ''success'') None 5))) 20) = Some ''pending'' \<and>
   map_option paymentStatus (map_of (orders (fst (handleZenopayCallback2 asciiUpper asciiLower
       dbUnpaid enumOrder (Some ''tx20'') None (Some ''success'') None 5))) 20) = Some ''completed'' \<and>
   map_option order_status (map_of (orders (fst (handleZenopayCallback2 asciiUpper asciiLower
       dbUnpaid enumOrder (Some ''tx20'') None (Some ''Failed'') None 5))) 20) = Some ''cancelled'' \<and>
   map_option paymentStatus (map_of (orders (fst (handleZenopayCallback2 asciiUpper asciiLower
       dbUnpaid enumOrder (Some ''tx20'') None (Some ''Failed'') None 5))) 20) = Some ''failed'' \<and>
   map_option order_status (map_of (orders (fst (handleZenopayCallback2 asciiUpper asciiLower
       dbUnpaid enumOrder (Some ''tx20'') (Some ''PROCESSING'') None None 5))) 20) =
     Some ''pending_payment'' \<and>
   handleZenopayCallback2 asciiUpper asciiLower dbUnpaid enumOrder (Some ''tx20'') None
       (Some ''Weird'') None 5 = (dbUnpaid, (200, ''Callback received but processing failed'')) \<and>
   map_option order_status (map_of (orders (fst (handleZenopayCallback2 asciiUpper asciiLower
       dbUnpaid acceptAll (Some ''tx20'') None (Some ''Weird'') None 5))) 20) =
     Some ''pending_payment'' \<and>
   map_option paymentStatus (map_of (orders (fst (handleZenopayCallback2 asciiUpper asciiLower
       dbUnpaid acceptAll (Some ''tx20'') None (Some ''Weird'') None 5))) 20) = Some ''weird'' \<and>
   map_option (\<lambda>x. callbackStatus (order_payment x)) (map_of (orders (fst (handleZenopayCallback2
       asciiUpper asciiLower dbUnpaid acceptAll (Some ''tx20'') None (Some ''Weird'') None 5))) 20) =
     Some (Some ''Weird'') \<and>
   map_option order_status (map_of (orders (fst (handleZenopayCallback dbUnpaid ''secret'' enumOrder
       None (Some ''tx20'') (Some ''COMPLETED'') None (Status (Some ''COMPLETED'')) 5))) 20) =
     Some ''pending'' \<and>
   handleZenopayCallback dbUnpaid ''secret'' enumOrder None (Some ''tx20'') (Some ''FAILED'') None
       (Status (Some ''FAILED'')) 5 = (dbUnpaid, (200, ''Payment not completed''))"
proof -
  have tx: "Some ''tx20'' = Some ''tx20''" "''tx20'' \<noteq> []" by simp_all
  have found: "findOrderByTransaction (orders dbUnpaid) ''tx20'' = Some (20, unpaidOrder)"
    by (simp add: scenario_defs findOrderByTransaction_def)
  have key: "\<not> truthy None \<or> None = Some ''secret''" by (simp add: truthy_def)
  have st: "order_status unpaidOrder = ''pending_payment''" "paymentStatus unpaidOrder \<noteq> ''completed''"
    by (simp_all add: scenario_defs)
  have up: "asciiUpper ''success'' = ''SUCCESS''" "asciiUpper ''Failed'' = ''FAILED''"
    "asciiUpper ''PROCESSING'' = ''PROCESSING''" "asciiUpper ''Weird'' = ''WEIRD''"
    "asciiLower ''Weird'' = ''weird''"
    by code_simp+
  have v1: "Some ''success'' = js_or (Some ''success'') None"
    and v2: "Some ''Failed'' = js_or (Some ''Failed'') None"
    and v3: "Some ''PROCESSING'' = js_or None (Some ''PROCESSING'')"
    and v4: "Some ''Weird'' = js_or (Some ''Weird'') None"
    by (simp_all add: js_or_def truthy_def)
  have ok1: "enumOrder (callbackOrder asciiUpper asciiLower unpaidOrder (Some ''success'') None 5)"
    and ok2: "enumOrder (callbackOrder asciiUpper asciiLower unpaidOrder (Some ''Failed'') None 5)"
    and ok3: "enumOrder (callbackOrder asciiUpper asciiLower unpaidOrder (Some ''PROCESSING'') None 5)"
    and ok4: "\<not> enumOrder (callbackOrder asciiUpper asciiLower unpaidOrder (Some ''Weird'') None 5)"
    and ok5: "acceptAll (callbackOrder asciiUpper asciiLower unpaidOrder (Some ''Weird'') None 5)"
    and ok6: "enumOrder (completedOrder unpaidOrder None 5)"
    by code_simp+
  note A = callback_status_mapping [where toUpperCase = asciiUpper and toLowerCase = asciiLower
      and okOrder = enumOrder and actual = "Some ''FAILED''" and ps = "Some ''COMPLETED''"
      and ref = None and now = 5, OF tx found key v1 refl refl refl refl]
  note B = callback_status_mapping [where toUpperCase = asciiUpper and toLowerCase = asciiLower
      and okOrder = enumOrder and actual = "Some ''FAILED''" and ps = "Some ''FAILED''"
      and ref = None and now = 5, OF tx found key v2 refl refl refl refl]
  note C = callback_status_mapping [where toUpperCase = asciiUpper and toLowerCase = asciiLower
      and okOrder = enumOrder and actual = "Some ''FAILED''" and ps = "Some ''COMPLETED''"
      and ref = None and now = 5, OF tx found key v3 refl refl refl refl]
  note D = callback_status_mapping [where toUpperCase = asciiUpper and toLowerCase = asciiLower
      and okOrder = enumOrder and actual = "Some ''FAILED''" and ps = "Some ''COMPLETED''"
      and ref = None and now = 5, OF tx found key v4 refl refl refl refl]
  note E = callback_status_mapping [where toUpperCase = asciiUpper and toLowerCase = asciiLower
      and okOrder = acceptAll and actual = "Some ''FAILED''" and ps = "Some ''COMPLETED''"
      and ref = None and now = 5, OF tx found key v4 refl refl refl refl]
  have m1: "map_option asciiUpper (Some ''success'') \<in>
      set [Some ''COMPLETED'', Some ''SUCCESS'', Some ''SUCCESSFUL'']"
    and m2: "map_option asciiUpper (Some ''Failed'') \<in> set [Some ''FAILED'', Some ''FAILURE'']"
    and m3: "map_option asciiUpper (Some ''PROCESSING'') \<in> set [Some ''PENDING'', Some ''PROCESSING'']"
    and m4: "map_option asciiUpper (Some ''Weird'') \<notin> set [Some ''COMPLETED'', Some ''SUCCESS'',
      Some ''SUCCESSFUL'', Some ''FAILED'', Some ''FAILURE'', Some ''PENDING'', Some ''PROCESSING'']"
    by (simp_all add: up)
  note A1 = A [THEN conjunct1, THEN mp, OF m1]
  note A5 = A [THEN conjunct2, THEN conjunct2, THEN conjunct2, THEN conjunct2, THEN conjunct1,
      THEN mp, OF ok1, THEN conjunct2]
  note B2 = B [THEN conjunct2, THEN conjunct1, THEN mp, OF m2]
  note B5 = B [THEN conjunct2, THEN conjunct2, THEN conjunct2, THEN conjunct2, THEN conjunct1,
      THEN mp, OF ok2, THEN conjunct2]
  note C3 = C [THEN conjunct2, THEN conjunct2, THEN conjunct1, THEN mp, OF m3]
  note C5 = C [THEN conjunct2, THEN conjunct2, THEN conjunct2, THEN conjunct2, THEN conjunct1,
      THEN mp, OF ok3, THEN conjunct2]
  note D6 = D [THEN conjunct2, THEN conjunct2, THEN conjunct2, THEN conjunct2, THEN conjunct2,
      THEN conjunct1, THEN mp, OF ok4]
  note E4 = E [THEN conjunct2, THEN conjunct2, THEN conjunct2, THEN conjunct1, THEN mp, OF m4]
  note E5 = E [THEN conjunct2, THEN conjunct2, THEN conjunct2, THEN conjunct2, THEN conjunct1,
      THEN mp, OF ok5, THEN conjunct2]
  note A7 = A [THEN conjunct2, THEN conjunct2, THEN conjunct2, THEN conjunct2, THEN conjunct2,
      THEN conjunct2, THEN conjunct1]
  note A9 = A [THEN conjunct2, THEN conjunct2, THEN conjunct2, THEN conjunct2, THEN conjunct2,
      THEN conjunct2, THEN conjunct2, THEN conjunct2, THEN conjunct1, THEN mp,
      OF conjI [OF st(2) ok6], THEN conjunct2]
  have fl: "Some ''FAILED'' \<noteq> Some ''COMPLETED''" by simp
  note B11 = B [THEN conjunct2, THEN conjunct2, THEN conjunct2, THEN conjunct2, THEN conjunct2,
      THEN conjunct2, THEN conjunct2, THEN conjunct2, THEN conjunct2, THEN conjunct2,
      THEN mp, OF fl]
  have a: "map_option order_status (map_of (orders (fst (handleZenopayCallback2 asciiUpper asciiLower
       dbUnpaid enumOrder (Some ''tx20'') None (Some ''success'') None 5))) 20) = Some ''pending''"
    "map_option paymentStatus (map_of (orders (fst (handleZenopayCallback2 asciiUpper asciiLower
       dbUnpaid enumOrder (Some ''tx20'') None (Some ''success'') None 5))) 20) = Some ''completed''"
    by (simp_all add: A5 A1)
  have b: "map_option order_status (map_of (orders (fst (handleZenopayCallback2 asciiUpper asciiLower
       dbUnpaid enumOrder (Some ''tx20'') None (Some ''Failed'') None 5))) 20) = Some ''cancelled''"
    "map_option paymentStatus (map_of (orders (fst (handleZenopayCallback2 asciiUpper asciiLower
       dbUnpaid enumOrder (Some ''tx20'') None (Some ''Failed'') None 5))) 20) = Some ''failed''"
    by (simp_all add: B5 B2)
  have c: "map_option order_status (map_of (orders (fst (handleZenopayCallback2 asciiUpper asciiLower
       dbUnpaid enumOrder (Some ''tx20'') (Some ''PROCESSING'') None None 5))) 20) =
     Some ''pending_payment''"
    by (simp add: C5 C3)
  have lw: "truthy (map_option asciiLower (Some ''Weird''))"
    by (simp add: truthy_def up)
  have e: "map_option order_status (map_of (orders (fst (handleZenopayCallback2 asciiUpper asciiLower
       dbUnpaid acceptAll (Some ''tx20'') None (Some ''Weird'') None 5))) 20) =
     Some ''pending_payment''"
    "map_option paymentStatus (map_of (orders (fst (handleZenopayCallback2 asciiUpper asciiLower
       dbUnpaid acceptAll (Some ''tx20'') None (Some ''Weird'') None 5))) 20) = Some ''weird''"
    "map_option (\<lambda>x. callbackStatus (order_payment x)) (map_of (orders (fst (handleZenopayCallback2
       asciiUpper asciiLower dbUnpaid acceptAll (Some ''tx20'') None (Some ''Weird'') None 5))) 20) =
     Some (Some ''Weird'')"
    using E4 lw by (simp_all add: E5 st(1) up)
  have h: "map_option order_status (map_of (orders (fst (handleZenopayCallback dbUnpaid ''secret'' enumOrder
       None (Some ''tx20'') (Some ''COMPLETED'') None (Status (Some ''COMPLETED'')) 5))) 20) =
     Some ''pending''"
    by (simp add: A9 A7)
  show ?thesis
    by (intro conjI found st a b c D6 e h B11)
qed

section \<open>Order status\<close>

text \<open>\<open>ORDER_STATUS_FLOW\<close> is the graph of the specification, and every target of
  the graph is one of the five status values the handler accepts.\<close>

lemma flow_is_graph:
  "isValidStatusTransition from to \<longleftrightarrow> (from, to) \<in> set transitionGraph"
  by (auto simp: isValidStatusTransition_def ORDER_STATUS_FLOW_def transitionGraph_def Let_def)

lemma graph_targets_valid:
  "(from, to) \<in> set transitionGraph \<Longrightarrow> to \<in> set validStatuses"
  by (auto simp: transitionGraph_def validStatuses_def)

text \<open>The outcomes of \<open>updateOrderStatus\<close> for a caller who owns the order's shop or
  is an administrator.\<close>

lemma update_rejected:
  assumes "map_of (orders d) orderId = Some ord"
      and "map_of (shops d) (order_shop ord) = Some s"
      and "owner s = user_id u \<or> userType u = ADMIN"
      and "(order_status ord, st) \<notin> set transitionGraph"
    shows "updateOrderStatus d u orderId st now =
             (d, Inl (if st \<in> set validStatuses
                      then InvalidTransition (order_status ord) st else InvalidStatusValue))"
  using assms by (auto simp: updateOrderStatus_def flow_is_graph)

lemma update_accepted:
  assumes "map_of (orders d) orderId = Some ord"
      and "map_of (shops d) (order_shop ord) = Some s"
      and "owner s = user_id u \<or> userType u = ADMIN"
      and "(order_status ord, st) \<in> set transitionGraph"
      and "\<not> (st = ''cancelled'' \<and> missingProduct (items ord) (products d))"
    shows "snd (updateOrderStatus d u orderId st now) =
             Inr (ord\<lparr>order_status := st,
                       statusHistory := statusHistory ord @
                         [\<lparr>h_status = order_status ord, h_timestamp = now, h_updatedBy = user_id u\<rparr>]\<rparr>)"
      and "map_of (orders (fst (updateOrderStatus d u orderId st now))) orderId =
             Some (ord\<lparr>order_status := st,
                       statusHistory := statusHistory ord @
                         [\<lparr>h_status = order_status ord, h_timestamp = now, h_updatedBy = user_id u\<rparr>]\<rparr>)"
  using assms graph_targets_valid [of "order_status ord" st]
  by (auto simp: updateOrderStatus_def flow_is_graph Let_def update_conv')

lemma update_succeeds_only_in_graph:
  assumes "snd (updateOrderStatus d u orderId st now) = Inr r"
      and "map_of (orders d) orderId = Some ord"
    shows "(order_status ord, st) \<in> set transitionGraph"
  using assms
  by (auto simp: updateOrderStatus_def flow_is_graph Let_def split: option.splits if_splits)

lemma delivery_credits:
  assumes "map_of (orders d) orderId = Some ord"
      and "map_of (shops d) (order_shop ord) = Some s"
      and "owner s = user_id u \<or> userType u = ADMIN"
      and "order_status ord = ''shipped''"
    shows "updateOrderStatus d u orderId ''delivered'' now =
             (d\<lparr>shops := AList.update (order_shop ord) (creditShop s (orderRevenue ord)) (shops d),
                orders := AList.update orderId
                  (ord\<lparr>order_status := ''delivered'',
                       statusHistory := statusHistory ord @
                         [\<lparr>h_status = ''shipped'', h_timestamp = now, h_updatedBy = user_id u\<rparr>]\<rparr>)
                  (orders d)\<rparr>,
              Inr (ord\<lparr>order_status := ''delivered'',
                       statusHistory := statusHistory ord @
                         [\<lparr>h_status = ''shipped'', h_timestamp = now, h_updatedBy = user_id u\<rparr>]\<rparr>))"
  using assms
  by (auto simp: updateOrderStatus_def isValidStatusTransition_def ORDER_STATUS_FLOW_def
        validStatuses_def Let_def)

text \<open>
  Claim C5 says that a request for a status outside the allowed set fails with
  the transition error.  The handler first checks the requested status against
  the five values it accepts, and \<open>pending_payment\<close> is not one of them: an
  administrator who asks to move the shipped order 20 to \<open>pending_payment\<close> gets
  \<open>Invalid status value\<close>, not the transition error.
\<close>

theorem pending_payment_target_is_invalid_value:
  "map_of (orders dbCreated) 20 = Some scriptOrder \<and>
   order_status scriptOrder = ''shipped'' \<and>
   (''shipped'', ''pending_payment'') \<notin> set transitionGraph \<and>
   updateOrderStatus dbCreated admin 20 ''pending_payment'' 2 = (dbCreated, Inl InvalidStatusValue)"
  by (simp add: scenario_defs updateOrderStatus_def validStatuses_def transitionGraph_def)

text \<open>
  Claim C5 as amended, for an existing order whose shop exists and a caller who
  owns that shop or is an administrator.  The update succeeds only if the
  target is a successor of the order's status in the transition graph, and it
  does succeed for such a target (unless a cancellation meets an order line
  whose product is gone).  A target outside the graph fails and the database
  is returned as it was: with \<open>Invalid status value\<close> when the target is none of
  \<open>pending\<close>, \<open>processing\<close>, \<open>shipped\<close>, \<open>delivered\<close>, \<open>cancelled\<close>, with the
  transition error otherwise.  The transition from \<open>shipped\<close> to \<open>delivered\<close>
  adds the order's subtotal (its total, when the subtotal is zero) to the
  available balance of the shop, by the addition of doubles, which is the exact
  sum when that sum is a whole number of magnitude at most \<open>2^53\<close>; a second
  request for \<open>delivered\<close> then fails with the transition error and changes
  nothing, so the wallet is credited once.
\<close>

theorem order_status_transitions:
  assumes ord: "map_of (orders d) orderId = Some ord"
      and shop: "map_of (shops d) (order_shop ord) = Some s"
      and auth: "owner s = user_id u \<or> userType u = ADMIN"
      and R: "R = updateOrderStatus d u orderId st now"
    shows "(\<not> isl (snd R) \<longrightarrow> (order_status ord, st) \<in> set transitionGraph) \<and>
           ((order_status ord, st) \<in> set transitionGraph \<and>
            \<not> (st = ''cancelled'' \<and> missingProduct (items ord) (products d)) \<longrightarrow>
              snd R = Inr (ord\<lparr>order_status := st,
                        statusHistory := statusHistory ord @
                          [\<lparr>h_status = order_status ord, h_timestamp = now,
                            h_updatedBy = user_id u\<rparr>]\<rparr>) \<and>
              map_option order_status (map_of (orders (fst R)) orderId) = Some st) \<and>
           ((order_status ord, st) \<notin> set transitionGraph \<longrightarrow>
              R = (d, Inl (if st \<in> set validStatuses
                           then InvalidTransition (order_status ord) st else InvalidStatusValue))) \<and>
           (order_status ord = ''shipped'' \<and> st = ''delivered'' \<longrightarrow>
              map_option ensureWallet (map_of (shops (fst R)) (order_shop ord)) =
                Some ((ensureWallet s)\<lparr>currentBalance := jsAdd (currentBalance (ensureWallet s))
                        (if subtotal ord \<noteq> 0 then subtotal ord else total ord)\<rparr>) \<and>
              (whole (currentBalance (ensureWallet s) +
                        (if subtotal ord \<noteq> 0 then subtotal ord else total ord)) \<longrightarrow>
                 map_option ensureWallet (map_of (shops (fst R)) (order_shop ord)) =
                   Some ((ensureWallet s)\<lparr>currentBalance := currentBalance (ensureWallet s) +
                           (if subtotal ord \<noteq> 0 then subtotal ord else total ord)\<rparr>)) \<and>
              updateOrderStatus (fst R) u orderId ''delivered'' later =
                (fst R, Inl (InvalidTransition ''delivered'' ''delivered'')))"
proof (intro conjI impI)
  assume "\<not> isl (snd R)"
  then obtain r where "snd R = Inr r" by (cases "snd R") auto
  then show "(order_status ord, st) \<in> set transitionGraph"
    using update_succeeds_only_in_graph ord unfolding R by blast
next
  assume a: "(order_status ord, st) \<in> set transitionGraph \<and>
     \<not> (st = ''cancelled'' \<and> missingProduct (items ord) (products d))"
  then have g: "(order_status ord, st) \<in> set transitionGraph"
    and m: "\<not> (st = ''cancelled'' \<and> missingProduct (items ord) (products d))" by blast+
  show "snd R = Inr (ord\<lparr>order_status := st,
                        statusHistory := statusHistory ord @
                          [\<lparr>h_status = order_status ord, h_timestamp = now,
                            h_updatedBy = user_id u\<rparr>]\<rparr>)"
    unfolding R by (rule update_accepted(1) [OF ord shop auth g m])
  show "map_option order_status (map_of (orders (fst R)) orderId) = Some st"
    unfolding R by (simp add: update_accepted(2) [OF ord shop auth g m])
next
  assume "(order_status ord, st) \<notin> set transitionGraph"
  then show "R = (d, Inl (if st \<in> set validStatuses
                           then InvalidTransition (order_status ord) st else InvalidStatusValue))"
    unfolding R by (rule update_rejected [OF ord shop auth])
next
  assume a: "order_status ord = ''shipped'' \<and> st = ''delivered''"
  then have sh: "order_status ord = ''shipped''" and st: "st = ''delivered''" by blast+
  note D = delivery_credits [OF ord shop auth sh, of now]
  show w: "map_option ensureWallet (map_of (shops (fst R)) (order_shop ord)) =
                Some ((ensureWallet s)\<lparr>currentBalance := jsAdd (currentBalance (ensureWallet s))
                        (if subtotal ord \<noteq> 0 then subtotal ord else total ord)\<rparr>)"
    unfolding R st D
    by (simp add: update_conv' creditShop_def orderRevenue_def ensureWallet_def Let_def)
  {
    assume "whole (currentBalance (ensureWallet s) +
                        (if subtotal ord \<noteq> 0 then subtotal ord else total ord))"
    then show "map_option ensureWallet (map_of (shops (fst R)) (order_shop ord)) =
                   Some ((ensureWallet s)\<lparr>currentBalance := currentBalance (ensureWallet s) +
                           (if subtotal ord \<noteq> 0 then subtotal ord else total ord)\<rparr>)"
      unfolding w by (simp only: jsAdd_whole)
  }
  let ?ord' = "ord\<lparr>order_status := ''delivered'',
                       statusHistory := statusHistory ord @
                         [\<lparr>h_status = ''shipped'', h_timestamp = now, h_updatedBy = user_id u\<rparr>]\<rparr>"
  let ?d1 = "fst (updateOrderStatus d u orderId ''delivered'' now)"
  have o1: "map_of (orders ?d1) orderId = Some ?ord'"
    unfolding D by (simp add: update_conv')
  have s1: "map_of (shops ?d1) (order_shop ?ord') = Some (creditShop s (orderRevenue ord))"
    unfolding D by (simp add: update_conv')
  have a1: "owner (creditShop s (orderRevenue ord)) = user_id u \<or> userType u = ADMIN"
    using auth by (simp add: creditShop_def Let_def)
  have n1: "(order_status ?ord', ''delivered'') \<notin> set transitionGraph"
    by (simp add: transitionGraph_def)
  show "updateOrderStatus (fst R) u orderId ''delivered'' later =
                (fst R, Inl (InvalidTransition ''delivered'' ''delivered''))"
    unfolding R st
    using update_rejected [OF o1 s1 a1 n1, of later] by (simp add: validStatuses_def)
qed

theorem order_status_transitions_witness:
  "map_of (orders dbCreated) 20 = Some scriptOrder \<and>
   map_of (shops dbCreated) (order_shop scriptOrder) =
     Some \<lparr>owner = 2, wallet = Some zeroWallet, totalRevenue = 0\<rparr> \<and>
   owner \<lparr>owner = 2, wallet = Some zeroWallet, totalRevenue = 0\<rparr> = user_id seller \<and>
   (order_status scriptOrder, ''delivered'') \<in> set transitionGraph \<and>
   (order_status scriptOrder, ''processing'') \<notin> set transitionGraph \<and>
   updateOrderStatus dbCreated seller 20 ''delivered'' 2 = (dbDelivered, Inr deliveredOrder) \<and>
   map_option ensureWallet (map_of (shops dbDelivered) 10) =
     Some \<lparr>currentBalance = 50000, lockedBalance = 0\<rparr> \<and>
   updateOrderStatus dbDelivered seller 20 ''delivered'' 3 =
     (dbDelivered, Inl (InvalidTransition ''delivered'' ''delivered'')) \<and>
   updateOrderStatus dbCreated seller 20 ''processing'' 2 =
     (dbCreated, Inl (InvalidTransition ''shipped'' ''processing''))"
proof -
  let ?s = "\<lparr>owner = 2, wallet = Some zeroWallet, totalRevenue = 0\<rparr>"
  have ord: "map_of (orders dbCreated) 20 = Some scriptOrder"
    by (simp add: dbCreated_def)
  have shop: "map_of (shops dbCreated) (order_shop scriptOrder) = Some ?s"
    by (simp add: dbCreated_def scriptOrder_def)
  have auth: "owner ?s = user_id seller \<or> userType seller = ADMIN"
    by (simp add: seller_def)
  have g1: "(order_status scriptOrder, ''delivered'') \<in> set transitionGraph"
    and g2: "(order_status scriptOrder, ''processing'') \<notin> set transitionGraph"
    by (simp_all add: scriptOrder_def transitionGraph_def)
  have run: "updateOrderStatus dbCreated seller 20 ''delivered'' 2 = (dbDelivered, Inr deliveredOrder)"
    by code_simp
  note A = order_status_transitions [OF ord shop auth refl, where st = "''delivered''" and now = 2
      and later = 3]
  note B = order_status_transitions [OF ord shop auth refl, where st = "''processing''" and now = 2
      and later = 3]
  have sh: "order_status scriptOrder = ''shipped'' \<and> ''delivered'' = ''delivered''"
    by (simp add: scriptOrder_def)
  have st: "order_status scriptOrder = ''shipped''"
    by (simp add: scriptOrder_def)
  have v: "''processing'' \<in> set validStatuses"
    by (simp add: validStatuses_def)
  note A4 = A [THEN conjunct2, THEN conjunct2, THEN conjunct2, THEN mp, OF sh]
  have wh: "whole (currentBalance (ensureWallet ?s) +
      (if subtotal scriptOrder \<noteq> 0 then subtotal scriptOrder else total scriptOrder))"
    by code_simp
  have os: "order_shop scriptOrder = 10"
    by (simp add: scriptOrder_def)
  have w: "map_option ensureWallet (map_of (shops dbDelivered) 10) =
     Some \<lparr>currentBalance = 50000, lockedBalance = 0\<rparr>"
    using A4 [THEN conjunct2, THEN conjunct1, THEN mp, OF wh]
    by (simp only: run fst_conv os) (simp add: scriptOrder_def ensureWallet_def zeroWallet_def)
  have twice: "updateOrderStatus dbDelivered seller 20 ''delivered'' 3 =
     (dbDelivered, Inl (InvalidTransition ''delivered'' ''delivered''))"
    using A4 [THEN conjunct2, THEN conjunct2]
    by (simp only: run fst_conv)
  have refused: "updateOrderStatus dbCreated seller 20 ''processing'' 2 =
     (dbCreated, Inl (InvalidTransition ''shipped'' ''processing''))"
    using B [THEN conjunct2, THEN conjunct2, THEN conjunct1, THEN mp, OF g2]
    by (simp only: v st if_True)
  have o: "owner ?s = user_id seller"
    by (simp add: seller_def)
  show ?thesis
    by (intro conjI ord shop o g1 g2 run w twice refused)
qed

section \<open>The total of a wallet\<close>

text \<open>
  Claim C6 says that a reserve followed by a release restores both balances.
  The handlers compute in doubles.  With 9 available and 1 locked for a
  pending request, the seller asks for 1.01 and the administrator rejects that
  request: the available balance is 9 again, but the locked balance is
  \<open>1 - 2^-52\<close> and not 1, so the total has changed as well.
\<close>

theorem release_does_not_restore_locked_balance:
  "shopWallet 10 dbNineOne = Some \<lparr>currentBalance = 9, lockedBalance = 1\<rparr> \<and>
   b_amount centBody = Some (4548635623644201 / 4503599627370496) \<and>
   map_option (\<lambda>r. fst r = 101 \<and> status (fst (snd r)) = ''pending'')
     (case snd (requestWithdrawal dbNineOne seller centBody) of
        Inl e \<Rightarrow> None | Inr r \<Rightarrow> Some r) = Some True \<and>
   shopWallet 10 (fst (requestWithdrawal dbNineOne seller centBody)) =
     Some \<lparr>currentBalance = 4497970127836283 / 562949953421312,
           lockedBalance = 1131529406376837 / 562949953421312\<rparr> \<and>
   shopWallet 10 (fst (updateWithdrawalStatus (fst (requestWithdrawal dbNineOne seller centBody))
       admin 101 ''rejected'' NoNote 3)) =
     Some \<lparr>currentBalance = 9, lockedBalance = 4503599627370495 / 4503599627370496\<rparr> \<and>
   shopTotal 10 dbNineOne = Some 10 \<and>
   shopTotal 10 (fst (updateWithdrawalStatus (fst (requestWithdrawal dbNineOne seller centBody))
       admin 101 ''rejected'' NoNote 3)) = Some (45035996273704959 / 4503599627370496)"
  by code_simp

text \<open>What a successful withdrawal request returns and writes, what a decision on
  a pending request does to the wallet of its shop, and what a delivery does
  to the wallet of the order's shop.\<close>

lemma request_success:
  assumes "findShopByOwner (shops d) (user_id u) = Some (sid, s)"
      and "requestWithdrawal d u body = (d1, Inr (wid, wr, w1))"
    shows "wid = nextId d"
      and "w1 = \<lparr>currentBalance = jsSub (currentBalance (ensureWallet s)) (amount wr),
                 lockedBalance = jsAdd (lockedBalance (ensureWallet s)) (amount wr)\<rparr>"
      and "wr_shop wr = sid" and "status wr = ''pending''" and "b_amount body = Some (amount wr)"
      and "0 < amount wr" and "amount wr \<le> currentBalance (ensureWallet s)"
      and "d1 = d\<lparr>shops := AList.update sid (s\<lparr>wallet := Some w1\<rparr>) (shops d),
                  withdrawals := withdrawals d @ [(wid, wr)],
                  nextId := Suc (nextId d)\<rparr>"
  using assms
  by (auto simp: requestWithdrawal_def Let_def split: option.splits if_splits)

lemma decide_pending:
  assumes "map_of (withdrawals d) wid = Some wr" "status wr = ''pending''"
      and "map_of (shops d) (wr_shop wr) = Some s"
    shows "shopWallet (wr_shop wr) (fst (updateWithdrawalStatus d u wid ''approved'' remark now)) =
             Some \<lparr>currentBalance = currentBalance (ensureWallet s),
                   lockedBalance = jsSub (lockedBalance (ensureWallet s)) (amount wr)\<rparr>"
      and "shopWallet (wr_shop wr) (fst (updateWithdrawalStatus d u wid ''rejected'' remark now)) =
             Some \<lparr>currentBalance = jsAdd (currentBalance (ensureWallet s)) (amount wr),
                   lockedBalance = jsSub (lockedBalance (ensureWallet s)) (amount wr)\<rparr>"
  using assms
  by (simp_all add: updateWithdrawalStatus_def Let_def shopWallet_def update_conv' ensureWallet_def
        split: noteValue.splits)

lemma delivery_total:
  assumes "map_of (orders d) orderId = Some ord"
      and "map_of (shops d) (order_shop ord) = Some s"
      and "owner s = user_id u \<or> userType u = ADMIN"
      and "order_status ord = ''shipped''"
    shows "shopWallet (order_shop ord) (fst (updateOrderStatus d u orderId ''delivered'' now)) =
             Some \<lparr>currentBalance = jsAdd (currentBalance (ensureWallet s)) (orderRevenue ord),
                   lockedBalance = lockedBalance (ensureWallet s)\<rparr>"
  using assms
  by (auto simp: updateOrderStatus_def isValidStatusTransition_def ORDER_STATUS_FLOW_def
        validStatuses_def Let_def shopWallet_def update_conv' creditShop_def ensureWallet_def)

text \<open>On a wallet of whole numbers, the reserve of a whole amount that the
  available balance covers is exact, and so are the burn and the release that
  follow it.\<close>

lemma whole_bound: "whole x \<Longrightarrow> \<bar>x\<bar> \<le> 2 ^ 53"
  by (simp add: whole_def)

lemma reserve_exact:
  assumes w: "wholeWallet w" and a: "whole a" "0 < a" "a \<le> currentBalance w"
  shows "jsSub (currentBalance w) a = currentBalance w - a"
    and "jsAdd (lockedBalance w) a = lockedBalance w + a"
    and "whole (currentBalance w - a)" and "whole (lockedBalance w + a)"
proof -
  have c: "whole (currentBalance w)" and l: "whole (lockedBalance w)"
    and t: "whole (currentBalance w + lockedBalance w)"
    using w by (simp_all add: wholeWallet_def walletTotal_def)
  have "\<bar>currentBalance w - a\<bar> \<le> 2 ^ 53"
    using whole_bound [OF c] a by (simp add: abs_le_iff)
  then show 1: "whole (currentBalance w - a)"
    using c a(1) by (rule whole_diff [rotated 2])
  have "\<bar>lockedBalance w + a\<bar> \<le> 2 ^ 53"
    using whole_bound [OF l] whole_bound [OF t] a by (simp add: abs_le_iff)
  then show 2: "whole (lockedBalance w + a)"
    using l a(1) by (rule whole_add [rotated 2])
  show "jsSub (currentBalance w) a = currentBalance w - a"
    using 1 by (rule jsSub_whole)
  show "jsAdd (lockedBalance w) a = lockedBalance w + a"
    using 2 by (rule jsAdd_whole)
qed

text \<open>Every outcome of a withdrawal request in whole numbers keeps the total of
  the caller's shop: either nothing is written, or the shop is saved with the
  amount moved from one balance to the other.\<close>

lemma request_keeps_total:
  assumes shop: "findShopByOwner (shops d) (user_id u) = Some (sid, s)"
      and stored: "map_of (shops d) sid = Some s"
      and ww: "wholeWallet (ensureWallet s)"
      and wa: "case b_amount b of None \<Rightarrow> True | Some a \<Rightarrow> whole a"
    shows "shopTotal sid (fst (requestWithdrawal d u b)) = shopTotal sid d"
proof (cases "fst (requestWithdrawal d u b) = d")
  case True
  then show ?thesis by simp
next
  case False
  then obtain a pd where a: "b_amount b = Some a" "0 < a"
    and pd: "b_paymentDetails b = Some pd" "\<not> badPaymentDetails (Some pd)"
    and en: "a \<le> currentBalance (ensureWallet s)"
    using shop
    by (auto simp: requestWithdrawal_def Let_def not_less split: option.splits if_splits)
  have whole_a: "whole a" using wa a(1) by simp
  note E = reserve_exact [OF ww whole_a a(2) en]
  have "shops (fst (requestWithdrawal d u b)) =
      AList.update sid (s\<lparr>wallet := Some ((ensureWallet s)
        \<lparr>currentBalance := currentBalance (ensureWallet s) - a,
         lockedBalance := lockedBalance (ensureWallet s) + a\<rparr>)\<rparr>) (shops d)"
    using a pd shop en
    by (simp add: requestWithdrawal_def Let_def E(1) E(2))
  then show ?thesis
    using stored
    by (simp add: shopTotal_def shopWallet_def update_conv' ensureWallet_def walletTotal_def)
qed

text \<open>
  Claim C6 as amended, on the handlers and for whole numbers: the two balances
  of the wallet and their sum are whole numbers of magnitude at most \<open>2^53\<close>,
  and so is the amount \<open>a\<close> of the request.  A successful withdrawal request
  (reserve) moves \<open>a\<close> from the available to the locked balance and keeps the
  total.  Approving that request (burn) leaves the available balance as the
  reserve left it, takes \<open>a\<close> off the locked balance, and the total is \<open>a\<close>
  less than before the reserve.  Rejecting it instead (release) gives both
  balances the values they had before the reserve.  Every withdrawal request
  of a whole amount by the caller, whatever its outcome, keeps the total of the
  caller's shop.  In any state, approving a pending request lowers the total of
  its shop's wallet by the request's amount and rejecting it keeps the total,
  when the differences and sums computed are whole numbers of magnitude at
  most \<open>2^53\<close>; under the same condition the delivery of a shipped order
  raises the total of its shop's wallet by exactly the revenue credited.
\<close>

theorem wallet_total_accounting:
  assumes shop: "findShopByOwner (shops d) (user_id u) = Some (sid, s)"
      and stored: "map_of (shops d) sid = Some s"
      and ww: "wholeWallet (ensureWallet s)"
      and req: "requestWithdrawal d u body = (d1, Inr (wid, wr, w1))"
      and wa: "whole (amount wr)"
      and fresh: "nextId d \<notin> fst ` set (withdrawals d)"
      and dA: "dA = fst (updateWithdrawalStatus d1 adm wid ''approved'' remark now)"
      and dR: "dR = fst (updateWithdrawalStatus d1 adm wid ''rejected'' remark now)"
    shows "shopWallet sid d1 =
             Some \<lparr>currentBalance = currentBalance (ensureWallet s) - amount wr,
                   lockedBalance = lockedBalance (ensureWallet s) + amount wr\<rparr> \<and>
           shopTotal sid d1 = Some (walletTotal (ensureWallet s)) \<and>
           map_option currentBalance (shopWallet sid dA) =
             map_option currentBalance (shopWallet sid d1) \<and>
           map_option lockedBalance (shopWallet sid dA) =
             map_option (\<lambda>w. lockedBalance w - amount wr) (shopWallet sid d1) \<and>
           shopTotal sid dA = Some (walletTotal (ensureWallet s) - amount wr) \<and>
           shopWallet sid dR = Some (ensureWallet s) \<and>
           shopTotal sid dR = Some (walletTotal (ensureWallet s)) \<and>
           (\<forall>b. (case b_amount b of None \<Rightarrow> True | Some a \<Rightarrow> whole a) \<longrightarrow>
               shopTotal sid (fst (requestWithdrawal d u b)) = shopTotal sid d) \<and>
           (\<forall>e k r x. map_of (withdrawals e) k = Some r \<and> status r = ''pending'' \<and>
               map_of (shops e) (wr_shop r) = Some x \<and>
               whole (lockedBalance (ensureWallet x) - amount r) \<and>
               whole (currentBalance (ensureWallet x) + amount r) \<longrightarrow>
               shopTotal (wr_shop r) (fst (updateWithdrawalStatus e adm k ''approved'' remark now)) =
                 Some (walletTotal (ensureWallet x) - amount r) \<and>
               shopTotal (wr_shop r) (fst (updateWithdrawalStatus e adm k ''rejected'' remark now)) =
                 Some (walletTotal (ensureWallet x))) \<and>
           (\<forall>e k ord x. map_of (orders e) k = Some ord \<and> order_status ord = ''shipped'' \<and>
               map_of (shops e) (order_shop ord) = Some x \<and>
               (owner x = user_id u \<or> userType u = ADMIN) \<and>
               whole (currentBalance (ensureWallet x) + orderRevenue ord) \<longrightarrow>
               shopTotal (order_shop ord) (fst (updateOrderStatus e u k ''delivered'' now)) =
                 Some (walletTotal (ensureWallet x) + orderRevenue ord))"
proof -
  note S = request_success [OF shop req]
  let ?w0 = "ensureWallet s"
  note E = reserve_exact [OF ww wa S(6) S(7)]
  have cw: "whole (currentBalance ?w0)" and lw: "whole (lockedBalance ?w0)"
    using ww by (simp_all add: wholeWallet_def)
  have w1: "w1 = \<lparr>currentBalance = currentBalance ?w0 - amount wr,
                  lockedBalance = lockedBalance ?w0 + amount wr\<rparr>"
    using S(2) by (simp only: E(1) E(2))
  have c1: "shopWallet sid d1 =
             Some \<lparr>currentBalance = currentBalance ?w0 - amount wr,
                   lockedBalance = lockedBalance ?w0 + amount wr\<rparr>"
    unfolding S(8) by (simp add: shopWallet_def update_conv' ensureWallet_def w1)
  have wr: "map_of (withdrawals d1) wid = Some wr"
    unfolding S(8) using fresh S(1)
    by (simp add: map_add_Some_iff map_of_eq_None_iff)
  have sh: "map_of (shops d1) (wr_shop wr) = Some (s\<lparr>wallet := Some w1\<rparr>)"
    unfolding S(8) S(3) by (simp add: update_conv')
  have e1: "ensureWallet (s\<lparr>wallet := Some w1\<rparr>) = w1"
    by (simp add: ensureWallet_def)
  note D = decide_pending [OF wr S(4) sh, unfolded S(3) e1]
  have rt: "jsSub (lockedBalance w1) (amount wr) = lockedBalance ?w0"
    "jsAdd (currentBalance w1) (amount wr) = currentBalance ?w0"
    using lw cw by (simp_all add: w1 jsSub_whole jsAdd_whole)
  have A: "shopWallet sid dA = Some \<lparr>currentBalance = currentBalance ?w0 - amount wr,
                                     lockedBalance = lockedBalance ?w0\<rparr>"
    unfolding dA D(1) rt by (simp add: w1)
  have R: "shopWallet sid dR = Some ?w0"
    unfolding dR D(2) rt by simp
  have c2: "shopTotal sid d1 = Some (walletTotal ?w0)"
    by (simp add: shopTotal_def c1 walletTotal_def)
  have c3: "map_option currentBalance (shopWallet sid dA) =
             map_option currentBalance (shopWallet sid d1)"
    by (simp add: A c1)
  have c4: "map_option lockedBalance (shopWallet sid dA) =
             map_option (\<lambda>w. lockedBalance w - amount wr) (shopWallet sid d1)"
    by (simp add: A c1)
  have c5: "shopTotal sid dA = Some (walletTotal ?w0 - amount wr)"
    by (simp add: shopTotal_def A walletTotal_def)
  have c6: "shopTotal sid dR = Some (walletTotal ?w0)"
    by (simp add: shopTotal_def R)
  have c7: "\<forall>b. (case b_amount b of None \<Rightarrow> True | Some a \<Rightarrow> whole a) \<longrightarrow>
               shopTotal sid (fst (requestWithdrawal d u b)) = shopTotal sid d"
    using request_keeps_total [OF shop stored ww] by blast
  have c8: "\<forall>e k r x. map_of (withdrawals e) k = Some r \<and> status r = ''pending'' \<and>
               map_of (shops e) (wr_shop r) = Some x \<and>
               whole (lockedBalance (ensureWallet x) - amount r) \<and>
               whole (currentBalance (ensureWallet x) + amount r) \<longrightarrow>
               shopTotal (wr_shop r) (fst (updateWithdrawalStatus e adm k ''approved'' remark now)) =
                 Some (walletTotal (ensureWallet x) - amount r) \<and>
               shopTotal (wr_shop r) (fst (updateWithdrawalStatus e adm k ''rejected'' remark now)) =
                 Some (walletTotal (ensureWallet x))"
    by (intro allI impI, elim conjE)
       (simp add: shopTotal_def decide_pending walletTotal_def jsSub_whole jsAdd_whole)
  have c9: "\<forall>e k ord x. map_of (orders e) k = Some ord \<and> order_status ord = ''shipped'' \<and>
               map_of (shops e) (order_shop ord) = Some x \<and>
               (owner x = user_id u \<or> userType u = ADMIN) \<and>
               whole (currentBalance (ensureWallet x) + orderRevenue ord) \<longrightarrow>
               shopTotal (order_shop ord) (fst (updateOrderStatus e u k ''delivered'' now)) =
                 Some (walletTotal (ensureWallet x) + orderRevenue ord)"
    by (intro allI impI, elim conjE)
       (simp add: shopTotal_def delivery_total walletTotal_def jsAdd_whole)
  show ?thesis
    by (intro conjI c1 c2 c3 c4 c5 R c6 c7 c8 c9)
qed

theorem wallet_total_accounting_witness:
  "findShopByOwner (shops dbDelivered) (user_id seller) =
     Some (10, \<lparr>owner = 2, wallet = Some \<lparr>currentBalance = 50000, lockedBalance = 0\<rparr>,
                 totalRevenue = 50000\<rparr>) \<and>
   wholeWallet \<lparr>currentBalance = 50000, lockedBalance = 0\<rparr> \<and>
   requestWithdrawal dbDelivered seller scriptBody =
     (dbRequested, Inr (100, scriptRequest, \<lparr>currentBalance = 40000, lockedBalance = 10000\<rparr>)) \<and>
   whole (amount scriptRequest) \<and>
   nextId dbDelivered \<notin> fst ` set (withdrawals dbDelivered) \<and>
   shopWallet 10 dbRequested = Some \<lparr>currentBalance = 40000, lockedBalance = 10000\<rparr> \<and>
   shopTotal 10 dbRequested = Some 50000 \<and>
   shopTotal 10 (fst (updateWithdrawalStatus dbRequested admin 100 ''approved'' NoNote 3)) = Some 40000 \<and>
   shopWallet 10 (fst (updateWithdrawalStatus dbRequested admin 100 ''rejected'' NoNote 3)) =
     Some \<lparr>currentBalance = 50000, lockedBalance = 0\<rparr> \<and>
   shopTotal 10 (fst (requestWithdrawal dbDelivered seller paypalBody)) = Some 50000 \<and>
   shopTotal 10 (fst (updateOrderStatus dbCreated seller 20 ''delivered'' 3)) = Some 50000"
proof -
  let ?s = "\<lparr>owner = 2, wallet = Some \<lparr>currentBalance = 50000, lockedBalance = 0\<rparr>,
              totalRevenue = 50000\<rparr>"
  have sh: "findShopByOwner (shops dbDelivered) (user_id seller) = Some (10, ?s)"
    by (simp add: findShopByOwner_def dbDelivered_def seller_def)
  have stored: "map_of (shops dbDelivered) 10 = Some ?s"
    by (simp add: dbDelivered_def)
  have w0: "ensureWallet ?s = \<lparr>currentBalance = 50000, lockedBalance = 0\<rparr>"
    by (simp add: ensureWallet_def)
  have ww: "wholeWallet \<lparr>currentBalance = 50000, lockedBalance = 0\<rparr>"
    by (simp add: wholeWallet_def walletTotal_def)
  have ww': "wholeWallet (ensureWallet ?s)"
    unfolding w0 by (rule ww)
  have rq: "requestWithdrawal dbDelivered seller scriptBody =
     (dbRequested, Inr (100, scriptRequest, \<lparr>currentBalance = 40000, lockedBalance = 10000\<rparr>))"
    by code_simp
  have fr: "nextId dbDelivered \<notin> fst ` set (withdrawals dbDelivered)"
    by (simp add: dbDelivered_def)
  have am: "amount scriptRequest = 10000"
    by (simp add: scriptRequest_def)
  have wa: "whole (amount scriptRequest)"
    by (simp add: am)
  note T = wallet_total_accounting [OF sh stored ww' rq wa fr refl refl, where adm = admin
      and remark = NoNote and now = 3, unfolded w0 am]
  have o: "map_of (orders dbCreated) 20 = Some scriptOrder \<and> order_status scriptOrder = ''shipped'' \<and>
      map_of (shops dbCreated) (order_shop scriptOrder) =
        Some \<lparr>owner = 2, wallet = Some zeroWallet, totalRevenue = 0\<rparr> \<and>
      (owner \<lparr>owner = 2, wallet = Some zeroWallet, totalRevenue = 0\<rparr> = user_id seller \<or>
       userType seller = ADMIN) \<and>
      whole (currentBalance (ensureWallet \<lparr>owner = 2, wallet = Some zeroWallet, totalRevenue = 0\<rparr>)
             + orderRevenue scriptOrder)"
    by (simp add: dbCreated_def scriptOrder_def seller_def ensureWallet_def zeroWallet_def
          orderRevenue_def)
  have os: "order_shop scriptOrder = 10" by (simp add: scriptOrder_def)
  have cr: "shopTotal 10 (fst (updateOrderStatus dbCreated seller 20 ''delivered'' 3)) = Some 50000"
    using T [THEN conjunct2, THEN conjunct2, THEN conjunct2, THEN conjunct2, THEN conjunct2,
             THEN conjunct2, THEN conjunct2, THEN conjunct2, THEN conjunct2,
             THEN spec, THEN spec, THEN spec, THEN spec, THEN mp, OF o]
    by (simp add: os ensureWallet_def zeroWallet_def walletTotal_def orderRevenue_def scriptOrder_def)
  have pb: "case b_amount paypalBody of None \<Rightarrow> True | Some a \<Rightarrow> whole a"
    by (simp add: paypalBody_def scriptBody_def)
  have t0: "shopTotal 10 dbDelivered = Some 50000"
    by (simp add: shopTotal_def shopWallet_def dbDelivered_def ensureWallet_def walletTotal_def)
  have pp: "shopTotal 10 (fst (requestWithdrawal dbDelivered seller paypalBody)) = Some 50000"
    using T [THEN conjunct2, THEN conjunct2, THEN conjunct2, THEN conjunct2, THEN conjunct2,
             THEN conjunct2, THEN conjunct2, THEN conjunct1, THEN spec, THEN mp, OF pb]
    by (simp only: t0)
  have t1: "shopWallet 10 dbRequested = Some \<lparr>currentBalance = 40000, lockedBalance = 10000\<rparr>"
    using T [THEN conjunct1] by simp
  have t2: "shopTotal 10 dbRequested = Some 50000"
    using T [THEN conjunct2, THEN conjunct1] by (simp add: walletTotal_def)
  have t3: "shopTotal 10 (fst (updateWithdrawalStatus dbRequested admin 100 ''approved'' NoNote 3)) =
      Some 40000"
    using T [THEN conjunct2, THEN conjunct2, THEN conjunct2, THEN conjunct2, THEN conjunct1]
    by (simp add: walletTotal_def)
  have t4: "shopWallet 10 (fst (updateWithdrawalStatus dbRequested admin 100 ''rejected'' NoNote 3)) =
     Some \<lparr>currentBalance = 50000, lockedBalance = 0\<rparr>"
    using T [THEN conjunct2, THEN conjunct2, THEN conjunct2, THEN conjunct2, THEN conjunct2,
             THEN conjunct1]
    by simp
  show ?thesis
    by (intro conjI sh ww rq wa fr t1 t2 t3 t4 pp cr)
qed

section \<open>Balances are never negative\<close>

text \<open>
  Claim C2 says that both balances are at least zero after every operation of
  every sequence that starts from a zeroed wallet.  The handlers compute in
  doubles, and a decision lowers the locked balance by the request's amount
  without a test.  The shop starts with a zeroed wallet and a shipped order
  worth 10.  The order is delivered, the seller asks for 1 and then for 1.01,
  the administrator rejects the second request and approves the first: the
  locked balance passes through \<open>1\<close>, \<open>2.01\<close> rounded, \<open>1 - 2^-52\<close>, and ends
  at \<open>- 2^-52\<close>.
\<close>

theorem rounding_leaves_negative_locked_balance:
  "shopWallet 10 dbSmall = Some \<lparr>currentBalance = 0, lockedBalance = 0\<rparr> \<and>
   withdrawals dbSmall = [] \<and>
   map (shopWallet 10)
     (trace dbSmall
        [OrderStatus seller 20 ''delivered'' 2, Withdraw seller oneBody, Withdraw seller centBody,
         Decide admin 101 ''rejected'' NoNote 3, Decide admin 100 ''approved'' NoNote 4]) =
     [Some \<lparr>currentBalance = 10, lockedBalance = 0\<rparr>,
      Some \<lparr>currentBalance = 9, lockedBalance = 1\<rparr>,
      Some \<lparr>currentBalance = 4497970127836283 / 562949953421312,
            lockedBalance = 1131529406376837 / 562949953421312\<rparr>,
      Some \<lparr>currentBalance = 9, lockedBalance = 4503599627370495 / 4503599627370496\<rparr>,
      Some \<lparr>currentBalance = 9, lockedBalance = - (1 / 4503599627370496)\<rparr>] \<and>
   \<not> nonNegative 10
     (last (trace dbSmall
        [OrderStatus seller 20 ''delivered'' 2, Withdraw seller oneBody, Withdraw seller centBody,
         Decide admin 101 ''rejected'' NoNote 3, Decide admin 100 ''approved'' NoNote 4]))"
  by code_simp

text \<open>A decision whose note cannot be stored saves the shop and not the request
  (the handler's comment reads \<open>Ideally use session transaction\<close>).  The
  request stays pending, and a second approval burns its amount again: in the
  script's scenario the locked balance ends at \<open>- 10000\<close>.\<close>

lemma unsaved_decision_is_repeated:
  "map (shopWallet 10)
     (trace dbCreated
        [OrderStatus seller 20 ''delivered'' 2, Withdraw seller scriptBody,
         Decide admin 100 ''approved'' BadNote 3, Decide admin 100 ''approved'' NoNote 4]) =
     [Some \<lparr>currentBalance = 50000, lockedBalance = 0\<rparr>,
      Some \<lparr>currentBalance = 40000, lockedBalance = 10000\<rparr>,
      Some \<lparr>currentBalance = 40000, lockedBalance = 0\<rparr>,
      Some \<lparr>currentBalance = 40000, lockedBalance = - 10000\<rparr>] \<and>
   updateWithdrawalStatus dbRequested admin 100 ''approved'' BadNote 3 =
     (dbRequested\<lparr>shops := [(10, \<lparr>owner = 2,
          wallet = Some \<lparr>currentBalance = 40000, lockedBalance = 0\<rparr>, totalRevenue = 50000\<rparr>)]\<rparr>,
      Inl ServerError)"
  by code_simp

text \<open>The total held by pending requests and the total due from orders under the
  ways the handlers change the two collections, and predicates on association
  lists.\<close>

lemma pendingTotal_append:
  "pendingTotal sid (ws @ [(k, w)]) = pendingTotal sid ws + held sid w"
  by (simp add: pendingTotal_def)

lemma pendingTotal_update:
  "map_of ws k = Some w \<Longrightarrow>
   pendingTotal sid (AList.update k w' ws) = pendingTotal sid ws - held sid w + held sid w'"
  by (induction ws) (auto simp: pendingTotal_def)

lemma pendingTotal_nonneg:
  "list_all (\<lambda>p. wholeAmount (held sid (snd p))) ws \<Longrightarrow> 0 \<le> pendingTotal sid ws"
  by (induction ws) (auto simp: pendingTotal_def wholeAmount_def)

lemma dueTotal_update:
  "map_of os k = Some ord \<Longrightarrow>
   dueTotal sid (AList.update k ord' os) = dueTotal sid os - due sid ord + due sid ord'"
  by (induction os) (auto simp: dueTotal_def)

lemma dueTotal_nonneg:
  "list_all (\<lambda>p. wholeAmount (due sid (snd p))) os \<Longrightarrow> 0 \<le> dueTotal sid os"
  by (induction os) (auto simp: dueTotal_def wholeAmount_def)

lemma list_all_update:
  "list_all P ws \<Longrightarrow> P (k, v) \<Longrightarrow> list_all P (AList.update k v ws)"
  by (induction ws) auto

lemma list_all_lookup:
  "list_all P xs \<Longrightarrow> map_of xs k = Some v \<Longrightarrow> P (k, v)"
  by (auto simp: list_all_iff dest: map_of_SomeD)

lemma owner_lookup:
  assumes "distinct (map fst ss)" "findShopByOwner ss uid = Some (sid, s)"
  shows "map_of ss sid = Some s"
  using assms find_Some_mem [of "\<lambda>p. owner (snd p) = uid" ss "(sid, s)"]
  by (simp add: findShopByOwner_def)

text \<open>Covering under a saved shop.\<close>

lemma covers_other:
  "sid' \<noteq> sid \<Longrightarrow> covers sid (AList.update sid' x ss) t b = covers sid ss t b"
  by (simp add: covers_def update_conv')

lemma covers_same:
  "covers sid (AList.update sid x ss) t b \<longleftrightarrow>
     whole (currentBalance (ensureWallet x)) \<and> whole (lockedBalance (ensureWallet x)) \<and>
     0 \<le> currentBalance (ensureWallet x) \<and> t \<le> lockedBalance (ensureWallet x) \<and>
     currentBalance (ensureWallet x) + lockedBalance (ensureWallet x) + b \<le> 2 ^ 53"
  by (simp add: covers_def update_conv')

lemma covers_lookup:
  "covers sid ss t b \<Longrightarrow> map_of ss sid = Some s \<Longrightarrow>
     whole (currentBalance (ensureWallet s)) \<and> whole (lockedBalance (ensureWallet s)) \<and>
     0 \<le> currentBalance (ensureWallet s) \<and> t \<le> lockedBalance (ensureWallet s) \<and>
     currentBalance (ensureWallet s) + lockedBalance (ensureWallet s) + b \<le> 2 ^ 53"
  by (simp add: covers_def)

lemma covers_mono:
  "covers sid ss t b \<Longrightarrow> t' \<le> t \<Longrightarrow> b' \<le> b \<Longrightarrow> covers sid ss t' b'"
  by (auto simp: covers_def split: option.splits)

lemma whole_nonneg: "whole x \<Longrightarrow> whole y \<Longrightarrow> 0 \<le> x + y \<Longrightarrow> x + y \<le> 2 ^ 53 \<Longrightarrow> whole (x + y)"
  by (rule whole_add) (simp_all add: abs_le_iff)

text \<open>Each handler preserves the ledger invariant, when it is called with whole
  amounts and saves both documents or none.  A handler either returns the
  database as it was or wrote the documents that its definition names; the
  proofs recover which and check the four parts of the invariant.\<close>

lemma request_preserves:
  assumes inv: "ledgerInv sid d"
      and wa: "case b_amount body of None \<Rightarrow> True | Some a \<Rightarrow> whole a"
  shows "ledgerInv sid (fst (requestWithdrawal d u body))"
proof (cases "fst (requestWithdrawal d u body) = d")
  case True
  then show ?thesis using inv by simp
next
  case False
  then obtain a pd sid' s where a: "b_amount body = Some a" "0 < a"
    and pd: "b_paymentDetails body = Some pd" "\<not> badPaymentDetails (Some pd)"
    and sh: "findShopByOwner (shops d) (user_id u) = Some (sid', s)"
    and en: "a \<le> currentBalance (ensureWallet s)"
    by (auto simp: requestWithdrawal_def Let_def split: option.splits if_splits)
  have whole_a: "whole a" using wa a(1) by simp
  define w' where "w' = (ensureWallet s)\<lparr>currentBalance := jsSub (currentBalance (ensureWallet s)) a,
                               lockedBalance := jsAdd (lockedBalance (ensureWallet s)) a\<rparr>"
  define wr where "wr = \<lparr>wr_shop = sid', wr_user = user_id u, amount = a,
                                  paymentDetails = pd,
                                  status = ''pending'', adminNote = None,
                                  processedBy = None, processedAt = None\<rparr>"
  define ss where "ss = AList.update sid' (s\<lparr>wallet := Some w'\<rparr>) (shops d)"
  have res: "fst (requestWithdrawal d u body) =
      (if \<not> validWithdrawal wr then d\<lparr>shops := ss\<rparr>
       else d\<lparr>shops := ss, withdrawals := withdrawals d @ [(nextId d, wr)],
              nextId := Suc (nextId d)\<rparr>)"
    using a pd sh en by (simp add: requestWithdrawal_def Let_def w'_def wr_def ss_def)
  have dist: "distinct (map fst (shops d))"
    and A: "list_all (\<lambda>p. wholeAmount (held sid (snd p))) (withdrawals d)"
    and B: "list_all (\<lambda>p. wholeAmount (due sid (snd p))) (orders d)"
    and I: "covers sid (shops d) (pendingTotal sid (withdrawals d)) (dueTotal sid (orders d))"
    using inv unfolding ledgerInv_def by blast+
  have old: "map_of (shops d) sid' = Some s"
    using owner_lookup [OF dist sh] .
  have dist': "distinct (map fst ss)"
    unfolding ss_def using dist by (rule distinct_update)
  have hw: "held sid wr = (if sid' = sid then a else 0)" "wholeAmount (held sid wr)"
    using a whole_a by (simp_all add: held_def wr_def wholeAmount_def)
  have h0: "0 \<le> held sid wr"
    using hw(2) by (simp add: wholeAmount_def)
  have C: "covers sid ss (pendingTotal sid (withdrawals d) + held sid wr) (dueTotal sid (orders d))"
  proof (cases "sid' = sid")
    case True
    note L = covers_lookup [OF I old [unfolded True]]
    have p0: "0 \<le> pendingTotal sid (withdrawals d)" using A by (rule pendingTotal_nonneg)
    have d0: "0 \<le> dueTotal sid (orders d)" using B by (rule dueTotal_nonneg)
    have "whole (currentBalance (ensureWallet s) + lockedBalance (ensureWallet s))"
      using L p0 d0 by (intro whole_nonneg) simp_all
    then have ww: "wholeWallet (ensureWallet s)"
      using L by (simp add: wholeWallet_def walletTotal_def)
    note E = reserve_exact [OF ww whole_a a(2) en]
    have ew: "\<And>x. ensureWallet (s\<lparr>wallet := Some x\<rparr>) = x"
      by (simp add: ensureWallet_def)
    show ?thesis
      using L en E(3) E(4)
      by (simp add: ss_def True covers_same ew w'_def hw E(1) E(2))
  next
    case False
    with I show ?thesis
      by (simp add: ss_def covers_other hw)
  qed
  have C0: "covers sid ss (pendingTotal sid (withdrawals d)) (dueTotal sid (orders d))"
    using covers_mono [OF C] h0 by simp
  show ?thesis
    unfolding res using dist' A B C C0 hw(2)
    by (simp add: ledgerInv_def pendingTotal_append)
qed

lemma decide_preserves:
  assumes inv: "ledgerInv sid d"
      and saved: "remark \<noteq> BadNote"
  shows "ledgerInv sid (fst (updateWithdrawalStatus d u wid st remark now))"
proof (cases "fst (updateWithdrawalStatus d u wid st remark now) = d")
  case True
  then show ?thesis using inv by simp
next
  case False
  then obtain wr s where st: "st \<in> set [''approved'', ''rejected'']"
    and wr: "map_of (withdrawals d) wid = Some wr" "status wr = ''pending''"
    and sh: "map_of (shops d) (wr_shop wr) = Some s"
    by (auto simp: updateWithdrawalStatus_def Let_def split: option.splits if_splits)
  define w where "w = ensureWallet s"
  define w' where "w' = (if st = ''approved''
                                   then w\<lparr>lockedBalance := jsSub (lockedBalance w) (amount wr)\<rparr>
                                   else w\<lparr>lockedBalance := jsSub (lockedBalance w) (amount wr),
                                          currentBalance := jsAdd (currentBalance w) (amount wr)\<rparr>)"
  define wr' where "wr' = wr\<lparr>status := st, processedBy := Some (user_id u),
                              processedAt := Some now,
                              adminNote := (case remark of Note txt \<Rightarrow> Some txt | _ \<Rightarrow> None)\<rparr>"
  define ss where "ss = AList.update (wr_shop wr) (s\<lparr>wallet := Some w'\<rparr>) (shops d)"
  have res: "fst (updateWithdrawalStatus d u wid st remark now) =
      d\<lparr>shops := ss, withdrawals := AList.update wid wr' (withdrawals d)\<rparr>"
    using st wr sh saved
    by (cases remark)
       (simp_all add: updateWithdrawalStatus_def Let_def w_def w'_def wr'_def ss_def)
  have dist: "distinct (map fst (shops d))"
    and A: "list_all (\<lambda>p. wholeAmount (held sid (snd p))) (withdrawals d)"
    and B: "list_all (\<lambda>p. wholeAmount (due sid (snd p))) (orders d)"
    and I: "covers sid (shops d) (pendingTotal sid (withdrawals d)) (dueTotal sid (orders d))"
    using inv unfolding ledgerInv_def by blast+
  have dist': "distinct (map fst ss)"
    unfolding ss_def using dist by (rule distinct_update)
  have h': "held sid wr' = 0"
    using st by (auto simp: held_def wr'_def)
  have h: "held sid wr = (if wr_shop wr = sid then amount wr else 0)" "wholeAmount (held sid wr)"
    using wr(2) list_all_lookup [OF A wr(1)] by (simp_all add: held_def)
  have A': "list_all (\<lambda>p. wholeAmount (held sid (snd p))) (AList.update wid wr' (withdrawals d))"
    using A h' by (intro list_all_update) (simp_all add: wholeAmount_def)
  have pt: "pendingTotal sid (AList.update wid wr' (withdrawals d)) =
      pendingTotal sid (withdrawals d) - held sid wr"
    using pendingTotal_update [OF wr(1), of sid wr'] h' by simp
  have p0: "0 \<le> pendingTotal sid (withdrawals d) - held sid wr"
    using pendingTotal_nonneg [OF A'] by (simp only: pt)
  have d0: "0 \<le> dueTotal sid (orders d)" using B by (rule dueTotal_nonneg)
  have C: "covers sid ss (pendingTotal sid (withdrawals d) - held sid wr) (dueTotal sid (orders d))"
  proof (cases "wr_shop wr = sid")
    case True
    note L = covers_lookup [OF I sh [unfolded True], folded w_def]
    have am: "whole (amount wr)" "0 \<le> amount wr"
      and le: "amount wr \<le> pendingTotal sid (withdrawals d)"
      using h p0 True by (simp_all add: wholeAmount_def)
    have lb: "lockedBalance w \<le> 2 ^ 53"
      using L whole_bound [of "lockedBalance w"] by (simp add: abs_le_iff)
    have "\<bar>lockedBalance w - amount wr\<bar> \<le> 2 ^ 53"
      using lb am le L by (simp add: abs_le_iff)
    then have w1: "whole (lockedBalance w - amount wr)"
      using L am by (intro whole_diff) simp_all
    then have e1: "jsSub (lockedBalance w) (amount wr) = lockedBalance w - amount wr"
      by (rule jsSub_whole)
    have w2: "whole (currentBalance w + amount wr)"
      using L am le d0 by (intro whole_nonneg) simp_all
    then have e2: "jsAdd (currentBalance w) (amount wr) = currentBalance w + amount wr"
      by (rule jsAdd_whole)
    have ew: "\<And>x. ensureWallet (s\<lparr>wallet := Some x\<rparr>) = x"
      by (simp add: ensureWallet_def)
    show ?thesis
      using L am le w1 w2
      by (simp add: ss_def True covers_same ew w'_def e1 e2 h(1))
  next
    case False
    with I show ?thesis
      by (simp add: ss_def covers_other h)
  qed
  show ?thesis
    unfolding res using dist' A' B C
    by (simp add: ledgerInv_def pt)
qed

lemma order_preserves:
  assumes inv: "ledgerInv sid d"
  shows "ledgerInv sid (fst (updateOrderStatus d u orderId st now))"
proof (cases "shops (fst (updateOrderStatus d u orderId st now)) = shops d \<and>
              orders (fst (updateOrderStatus d u orderId st now)) = orders d")
  case True
  moreover have "withdrawals (fst (updateOrderStatus d u orderId st now)) = withdrawals d"
    by (simp add: updateOrderStatus_def Let_def split: option.splits)
  ultimately show ?thesis using inv unfolding ledgerInv_def by simp
next
  case False
  then obtain ord s where ord: "map_of (orders d) orderId = Some ord"
    and sh: "map_of (shops d) (order_shop ord) = Some s"
    and ok: "isValidStatusTransition (order_status ord) st"
    and au: "\<not> (owner s \<noteq> user_id u \<and> userType u \<noteq> ADMIN)"
    and vs: "st \<in> set validStatuses"
    by (auto simp: updateOrderStatus_def Let_def split: option.splits if_splits)
  define ord' where "ord' = ord\<lparr>order_status := st,
                                   statusHistory := statusHistory ord @
                                     [\<lparr>h_status = order_status ord, h_timestamp = now,
                                       h_updatedBy = user_id u\<rparr>]\<rparr>"
  define ss where "ss = AList.update (order_shop ord) (creditShop s (orderRevenue ord)) (shops d)"
  have nd: "order_status ord \<noteq> ''delivered''"
    using ok by (auto simp: isValidStatusTransition_def ORDER_STATUS_FLOW_def)
  have wd: "withdrawals (fst (updateOrderStatus d u orderId st now)) = withdrawals d"
    by (simp add: updateOrderStatus_def Let_def split: option.splits)
  have shp: "shops (fst (updateOrderStatus d u orderId st now)) =
             (if st = ''delivered'' then ss else shops d)"
    using ord sh ok au vs nd by (auto simp: updateOrderStatus_def Let_def ss_def)
  have ors: "orders (fst (updateOrderStatus d u orderId st now)) = orders d \<and> st \<noteq> ''delivered'' \<or>
             orders (fst (updateOrderStatus d u orderId st now)) = AList.update orderId ord' (orders d)"
    using ord sh ok au vs by (auto simp: updateOrderStatus_def Let_def ord'_def)
  have dist: "distinct (map fst (shops d))"
    and A: "list_all (\<lambda>p. wholeAmount (held sid (snd p))) (withdrawals d)"
    and B: "list_all (\<lambda>p. wholeAmount (due sid (snd p))) (orders d)"
    and C: "covers sid (shops d) (pendingTotal sid (withdrawals d)) (dueTotal sid (orders d))"
    using inv unfolding ledgerInv_def by blast+
  have dist': "distinct (map fst ss)"
    unfolding ss_def using dist by (rule distinct_update)
  have rev: "wholeAmount (due sid ord)"
    using list_all_lookup [OF B ord] by simp
  have du: "due sid ord = (if order_shop ord = sid then orderRevenue ord else 0)"
    using nd by (simp add: due_def)
  have du': "due sid ord' = (if st = ''delivered'' then 0 else due sid ord)"
    using nd by (simp add: due_def ord'_def orderRevenue_def)
  have B': "list_all (\<lambda>p. wholeAmount (due sid (snd p))) (AList.update orderId ord' (orders d))"
    using rev by (intro list_all_update [OF B]) (simp add: du' wholeAmount_def)
  have dt: "dueTotal sid (AList.update orderId ord' (orders d)) =
            dueTotal sid (orders d) - (if st = ''delivered'' then due sid ord else 0)"
    using dueTotal_update [OF ord, of sid ord'] by (simp add: du')
  have p0: "0 \<le> pendingTotal sid (withdrawals d)" using A by (rule pendingTotal_nonneg)
  have d0: "0 \<le> dueTotal sid (AList.update orderId ord' (orders d))"
    using B' by (rule dueTotal_nonneg)
  have C': "st = ''delivered'' \<Longrightarrow>
            covers sid ss (pendingTotal sid (withdrawals d))
              (dueTotal sid (orders d) - due sid ord)"
  proof (cases "order_shop ord = sid")
    case True
    assume dl: "st = ''delivered''"
    note L = covers_lookup [OF C sh [unfolded True]]
    have r: "whole (orderRevenue ord)" "0 \<le> orderRevenue ord"
      and le: "orderRevenue ord \<le> dueTotal sid (orders d)"
      using rev d0 True by (simp_all add: du dt dl wholeAmount_def)
    have "whole (currentBalance (ensureWallet s) + orderRevenue ord)"
      using L r le p0 by (intro whole_nonneg) simp_all
    then have e: "jsAdd (currentBalance (ensureWallet s)) (orderRevenue ord) =
                  currentBalance (ensureWallet s) + orderRevenue ord"
      and w: "whole (currentBalance (ensureWallet s) + orderRevenue ord)"
      by (simp_all add: jsAdd_whole)
    have ew: "ensureWallet (creditShop s (orderRevenue ord)) =
        (ensureWallet s)\<lparr>currentBalance := currentBalance (ensureWallet s) + orderRevenue ord\<rparr>"
      by (simp add: creditShop_def Let_def ensureWallet_def e [unfolded ensureWallet_def])
    show ?thesis
      using L r w
      by (simp add: ss_def True covers_same ew du)
  next
    case False
    with C show ?thesis
      by (simp add: ss_def covers_other du)
  qed
  show ?thesis
  proof (cases "st = ''delivered''")
    case True
    with ors have o: "orders (fst (updateOrderStatus d u orderId st now)) =
        AList.update orderId ord' (orders d)" by simp
    show ?thesis
      unfolding ledgerInv_def wd shp o
      using True dist' A B' C' [OF True] by (simp add: dt)
  next
    case False
    show ?thesis
      unfolding ledgerInv_def wd shp
      using False ors dist A B B' C by (auto simp: dt)
  qed
qed

text \<open>So does every such call, hence every database of a trace; a shop as
  created satisfies the invariant, and the invariant bounds both balances.\<close>

lemma step_preserves: "ledgerInv sid d \<Longrightarrow> wholeCall c \<Longrightarrow> ledgerInv sid (step d c)"
  by (cases c) (simp_all add: request_preserves decide_preserves order_preserves)

lemma trace_preserves:
  "ledgerInv sid d \<Longrightarrow> list_all wholeCall cs \<Longrightarrow> d' \<in> set (trace d cs) \<Longrightarrow> ledgerInv sid d'"
proof (induction cs arbitrary: d)
  case Nil
  then show ?case by simp
next
  case (Cons c cs)
  have s: "ledgerInv sid (step d c)"
    using Cons.prems(1,2) by (simp add: step_preserves)
  have r: "list_all wholeCall cs"
    using Cons.prems(2) by simp
  from Cons.prems(3) have "d' = step d c \<or> d' \<in> set (trace (step d c) cs)"
    by simp
  then show ?case
    using s Cons.IH [OF s r] by blast
qed

lemma pendingTotal_zero:
  "list_all (\<lambda>p. held sid (snd p) = 0) ws \<Longrightarrow> pendingTotal sid ws = 0"
  by (induction ws) (auto simp: pendingTotal_def)

lemma fresh_ledgerInv:
  assumes f: "freshShop sid d"
  shows "ledgerInv sid d"
proof -
  have dist: "distinct (map fst (shops d))"
    and n: "list_all (\<lambda>p. \<not> (wr_shop (snd p) = sid \<and> status (snd p) = ''pending''))
              (withdrawals d)"
    and B: "list_all (\<lambda>p. wholeAmount (due sid (snd p))) (orders d)"
    and b: "dueTotal sid (orders d) \<le> 2 ^ 53"
    and w: "case map_of (shops d) sid of None \<Rightarrow> False | Some s \<Rightarrow> ensureWallet s = zeroWallet"
    using f unfolding freshShop_def by blast+
  have z: "list_all (\<lambda>p. held sid (snd p) = 0) (withdrawals d)"
    using n by (auto simp: list_all_iff held_def)
  have A: "list_all (\<lambda>p. wholeAmount (held sid (snd p))) (withdrawals d)"
    using z by (auto simp: list_all_iff wholeAmount_def)
  have C: "covers sid (shops d) (pendingTotal sid (withdrawals d)) (dueTotal sid (orders d))"
    using w b unfolding pendingTotal_zero [OF z]
    by (cases "map_of (shops d) sid") (simp_all add: covers_def zeroWallet_def)
  show ?thesis
    unfolding ledgerInv_def using dist A B C by blast
qed

lemma ledgerInv_nonNegative:
  assumes i: "ledgerInv sid d"
  shows "nonNegative sid d"
proof -
  have A: "list_all (\<lambda>p. wholeAmount (held sid (snd p))) (withdrawals d)"
    and C: "covers sid (shops d) (pendingTotal sid (withdrawals d)) (dueTotal sid (orders d))"
    using i unfolding ledgerInv_def by blast+
  have "covers sid (shops d) 0 (dueTotal sid (orders d))"
    using covers_mono [OF C pendingTotal_nonneg [OF A]] by simp
  then show ?thesis
    by (auto simp: covers_def nonNegative_def split: option.splits)
qed

text \<open>
  Claim C2 as amended, for whole numbers and decisions that are saved.  Take a
  shop whose wallet is zeroed and against which no request is pending, in a
  database whose shop ids are unique and in which the revenue of each order of
  the shop is a whole number, at least zero, these revenues adding up to at
  most \<open>2^53\<close>.  Take any sequence of order-status updates (which credit on
  delivery), withdrawal requests (which reserve) and decisions (which burn on
  approval and release on rejection), by any callers and on any documents, in
  which the amount of every withdrawal request is a whole number of magnitude
  at most \<open>2^53\<close> and the note of every decision can be stored.  After every
  call of the sequence the available and the locked balance of the shop are at
  least zero.
\<close>

theorem balances_never_negative:
  assumes "freshShop sid d" and "list_all wholeCall cs" and "d' \<in> set (trace d cs)"
  shows "nonNegative sid d'"
  using assms by (intro ledgerInv_nonNegative) (rule trace_preserves [OF fresh_ledgerInv])

theorem balances_never_negative_witness:
  "list_all wholeCall
     [OrderStatus seller 20 ''delivered'' 2, Withdraw seller scriptBody,
      Decide admin 100 ''approved'' (Note ''Verified manually'') 3,
      Decide admin 100 ''rejected'' NoNote 4] \<and>
   trace dbCreated
     [OrderStatus seller 20 ''delivered'' 2, Withdraw seller scriptBody,
      Decide admin 100 ''approved'' (Note ''Verified manually'') 3,
      Decide admin 100 ''rejected'' NoNote 4] =
     [dbDelivered, dbRequested, dbApproved, dbApproved] \<and>
   nonNegative 10 dbDelivered \<and> nonNegative 10 dbRequested \<and> nonNegative 10 dbApproved"
proof -
  let ?cs = "[OrderStatus seller 20 ''delivered'' 2, Withdraw seller scriptBody,
      Decide admin 100 ''approved'' (Note ''Verified manually'') 3,
      Decide admin 100 ''rejected'' NoNote 4]"
  have f: "freshShop 10 dbCreated"
    by code_simp
  have c: "list_all wholeCall ?cs"
    by code_simp
  have t: "trace dbCreated ?cs = [dbDelivered, dbRequested, dbApproved, dbApproved]"
    by code_simp
  have m: "dbDelivered \<in> set (trace dbCreated ?cs)" "dbRequested \<in> set (trace dbCreated ?cs)"
    "dbApproved \<in> set (trace dbCreated ?cs)"
    unfolding t by simp_all
  show ?thesis
    using c t balances_never_negative [OF f c m(1)] balances_never_negative [OF f c m(2)]
      balances_never_negative [OF f c m(3)]
    by blast
qed

end
